theory Spec2Isabelle
  imports Complex_Main "HOL-Library.AList"
begin

section \<open>JavaScript values used by the sheet proxy\<close>

text \<open>
  A JavaScript string is a sequence of UTF-16 code units, modelled as a list of naturals.
  \<open>js\<close> embeds an ASCII literal of the source.
\<close>

type_synonym jsstring = "nat list"

definition js :: "string \<Rightarrow> jsstring" where
  "js s = map of_char s"

text \<open>
  The code units that \<open>String.prototype.trim\<close> and the string-to-number conversion strip:
  ECMAScript's WhiteSpace and LineTerminator (TAB, LF, VT, FF, CR, SP, NBSP, the Unicode
  space separators, LS, PS and the byte order mark).
\<close>

definition is_ws :: "nat \<Rightarrow> bool" where
  "is_ws c = (c = 9 \<or> c = 10 \<or> c = 11 \<or> c = 12 \<or> c = 13 \<or> c = 32 \<or> c = 160 \<or> c = 5760
     \<or> (8192 \<le> c \<and> c \<le> 8202) \<or> c = 8232 \<or> c = 8233 \<or> c = 8239 \<or> c = 8287
     \<or> c = 12288 \<or> c = 65279)"

definition trim :: "jsstring \<Rightarrow> jsstring" where
  "trim s = rev (dropWhile is_ws (rev (dropWhile is_ws s)))"

text \<open>
  A JavaScript number, as far as this program can tell numbers apart: NaN, the two
  infinities, the two zeros (\<open>Fin 0\<close> is \<open>+0\<close>) and the finite nonzero values. \<open>Fin q\<close>
  stands for the double nearest to \<open>q\<close>; the rounding of the significand is not modelled,
  underflow to zero and overflow to infinity are.
\<close>

datatype jsnum = NaN | PosInf | NegInf | NegZero | Fin rat

definition number_value :: "bool \<Rightarrow> rat \<Rightarrow> jsnum" where
  "number_value neg a =
     (if a \<le> 1 / 2 ^ 1075 then (if neg then NegZero else Fin 0)
      else if 2 ^ 1024 - 2 ^ 970 \<le> a then (if neg then NegInf else PosInf)
      else Fin (if neg then - a else a))"

text \<open>ToBoolean on a number: NaN and both zeros are falsy.\<close>

definition truthy_num :: "jsnum \<Rightarrow> bool" where
  "truthy_num n = (n \<noteq> NaN \<and> n \<noteq> Fin 0 \<and> n \<noteq> NegZero)"

subsection \<open>\<open>Number(string)\<close>\<close>

text \<open>
  ECMAScript's StringToNumber. After stripping white space the empty string is \<open>+0\<close>;
  otherwise the text must be a StrNumericLiteral: a hexadecimal, octal or binary integer
  with its prefix and no sign, or an optionally signed \<open>Infinity\<close> or decimal literal
  (\<open>digits\<close>, \<open>digits.\<close>, \<open>digits.digits\<close>, \<open>.digits\<close>, each with an optional exponent).
  Anything else is NaN.
\<close>

definition is_digit :: "nat \<Rightarrow> bool" where
  "is_digit c = (48 \<le> c \<and> c \<le> 57)"

definition digit_val :: "nat \<Rightarrow> nat" where
  "digit_val c =
     (if 48 \<le> c \<and> c \<le> 57 then c - 48
      else if 97 \<le> c \<and> c \<le> 102 then c - 87
      else c - 55)"

definition is_radix_digit :: "nat \<Rightarrow> nat \<Rightarrow> bool" where
  "is_radix_digit b c =
     (((48 \<le> c \<and> c \<le> 57) \<or> (97 \<le> c \<and> c \<le> 102) \<or> (65 \<le> c \<and> c \<le> 70)) \<and> digit_val c < b)"

definition digits_val :: "nat \<Rightarrow> jsstring \<Rightarrow> nat" where
  "digits_val b ds = foldl (\<lambda>acc c. acc * b + digit_val c) 0 ds"

definition pow10 :: "int \<Rightarrow> rat" where
  "pow10 e = (if 0 \<le> e then 10 ^ nat e else 1 / 10 ^ nat (- e))"

definition parse_radix :: "nat \<Rightarrow> jsstring \<Rightarrow> jsnum" where
  "parse_radix b ds =
     (if ds \<noteq> [] \<and> list_all (is_radix_digit b) ds
      then number_value False (of_nat (digits_val b ds))
      else NaN)"

text \<open>The exponent part after the mantissa: empty, or \<open>e\<close>/\<open>E\<close>, an optional sign and digits.\<close>

definition parse_exponent :: "jsstring \<Rightarrow> int option" where
  "parse_exponent r =
     (case r of
        [] \<Rightarrow> Some 0
      | c # r1 \<Rightarrow>
          if c = 101 \<or> c = 69 then
            (let neg = (r1 \<noteq> [] \<and> hd r1 = 45);
                 ds = (if r1 \<noteq> [] \<and> (hd r1 = 43 \<or> hd r1 = 45) then tl r1 else r1)
             in if ds \<noteq> [] \<and> list_all is_digit ds
                then Some (if neg then - int (digits_val 10 ds) else int (digits_val 10 ds))
                else None)
          else None)"

definition parse_unsigned_decimal :: "bool \<Rightarrow> jsstring \<Rightarrow> jsnum" where
  "parse_unsigned_decimal neg t =
     (if t = js ''Infinity'' then (if neg then NegInf else PosInf)
      else
        (let ip = takeWhile is_digit t;
             r1 = dropWhile is_digit t;
             dot = (r1 \<noteq> [] \<and> hd r1 = 46);
             fp = (if dot then takeWhile is_digit (tl r1) else []);
             r2 = (if dot then dropWhile is_digit (tl r1) else r1)
         in if ip = [] \<and> fp = [] then NaN
            else (case parse_exponent r2 of
                    None \<Rightarrow> NaN
                  | Some e \<Rightarrow>
                      number_value neg
                        (of_nat (digits_val 10 (ip @ fp)) * pow10 (e - int (length fp))))))"

definition Number :: "jsstring \<Rightarrow> jsnum" where
  "Number s =
     (let t = trim s in
      if t = [] then Fin 0
      else if take 2 t = js ''0x'' \<or> take 2 t = js ''0X'' then parse_radix 16 (drop 2 t)
      else if take 2 t = js ''0o'' \<or> take 2 t = js ''0O'' then parse_radix 8 (drop 2 t)
      else if take 2 t = js ''0b'' \<or> take 2 t = js ''0B'' then parse_radix 2 (drop 2 t)
      else if hd t = 43 then parse_unsigned_decimal False (tl t)
      else if hd t = 45 then parse_unsigned_decimal True (tl t)
      else parse_unsigned_decimal False t)"

section \<open>Colour classification\<close>

text \<open>
  \<^verbatim>\<open>rgbToColorName\<close> of the grid variant. The colour object of the Sheets API carries
  optional channels; the destructuring defaults each absent channel to 0. The channels and
  the thresholds are taken as exact numbers.
\<close>

record color =
  red :: "real option"
  green :: "real option"
  blue :: "real option"

definition channel :: "real option \<Rightarrow> real" where
  "channel c = (case c of None \<Rightarrow> 0 | Some v \<Rightarrow> v)"

definition rgbToColorName :: "color option \<Rightarrow> jsstring" where
  "rgbToColorName rgbColor =
     (case rgbColor of
        None \<Rightarrow> js ''Gray''
      | Some c \<Rightarrow>
          (let r = channel (red c); g = channel (green c); b = channel (blue c)
           in if r > 0.8 \<and> g < 0.2 \<and> b < 0.2 then js ''Red''
              else if g > 0.5 \<and> r < 0.5 then js ''Green''
              else js ''Gray''))"

section \<open>The grid-with-formatting variant\<close>

subsection \<open>The response of the Sheets API\<close>

text \<open>
  The spreadsheet resource as the API serialises it: a field that the API leaves out is
  \<open>None\<close> (JavaScript reads it as \<open>undefined\<close>). \<open>sheet_data\<close> is the field \<open>data\<close> of a
  sheet and \<open>row_values\<close> the field \<open>values\<close> of a row; \<open>title\<close> is \<open>properties.title\<close>.
\<close>

record cell_format =
  backgroundColor :: "color option"

record cell =
  formattedValue :: "jsstring option"
  effectiveFormat :: "cell_format option"

record row_data =
  row_values :: "cell list option"

record grid_data =
  rowData :: "row_data list option"

record sheet =
  title :: jsstring
  sheet_data :: "grid_data list option"

record spreadsheet =
  sheets :: "sheet list"

definition SHEET_NAME :: jsstring where
  "SHEET_NAME = js ''Sheet1''"

subsection \<open>The objects that the parser builds\<close>

text \<open>
  The parser uses plain objects as maps from cell texts. On such an object every key is an
  own property but \<open>__proto__\<close>: assigning an object to it replaces the prototype and
  creates no property, assigning a number does nothing, and reading it returns the
  prototype.
\<close>

definition proto_key :: jsstring where
  "proto_key = js ''__proto__''"

text \<open>
  The \<open>Subheading\<close> field holds an object or, after the final cleanup, a number. The object
  maps a subheading name to \<open>{colour: c}\<close>, kept here as the colour \<open>c\<close>, in insertion
  order; its second component is the colour object installed as prototype, if any.
\<close>

datatype subheading = SubObj "(jsstring \<times> jsstring) list" "jsstring option" | SubNum int

record status =
  name :: jsstring
  colour :: jsstring

record entity =
  Subheading :: subheading
  Compliant :: "jsnum option"
  Total :: jsstring
  Mising :: jsstring
  pctCompliant :: jsstring
  status_C :: "status option"
  status_E :: "status option"

text \<open>
  The object \<open>data\<close>: its own properties in insertion order, and the record that an
  assignment to \<open>data['__proto__']\<close> installed as its prototype, if any. Only the own
  properties are serialised into the response.
\<close>

record data_obj =
  own :: "(jsstring \<times> entity) list"
  proto :: "entity option"

datatype js_error = TypeError (message: jsstring) | AxiosError (message: jsstring)

text \<open>
  \<open>data[k]\<close> as the loop reads and writes it. A read in the loop follows an assignment
  under the same key, so it finds an own property, or the prototype for \<open>__proto__\<close>.
\<close>

definition get_entity :: "data_obj \<Rightarrow> jsstring \<Rightarrow> entity option" where
  "get_entity d k = (if k = proto_key then proto d else map_of (own d) k)"

definition set_entity :: "data_obj \<Rightarrow> jsstring \<Rightarrow> entity \<Rightarrow> data_obj" where
  "set_entity d k e =
     (if k = proto_key then d\<lparr>proto := Some e\<rparr> else d\<lparr>own := AList.update k e (own d)\<rparr>)"

text \<open>\<open>data[k].field = v\<close>: the record stored under \<open>k\<close> is changed in place.\<close>

definition modify_entity :: "data_obj \<Rightarrow> jsstring \<Rightarrow> (entity \<Rightarrow> entity) \<Rightarrow> data_obj" where
  "modify_entity d k f =
     (if k = proto_key then d\<lparr>proto := map_option f (proto d)\<rparr>
      else d\<lparr>own := AList.map_entry k f (own d)\<rparr>)"

subsection \<open>Header index and cell lookup\<close>

text \<open>
  \<open>headerMap[header.trim()] = index\<close> for every header with a non-empty text; a later
  header of the same trimmed text wins. The map is only read at the fixed header names of
  the source.
\<close>

fun build_headerMap :: "jsstring option list \<Rightarrow> nat \<Rightarrow> (jsstring \<rightharpoonup> nat) \<Rightarrow> (jsstring \<rightharpoonup> nat)" where
  "build_headerMap [] index hm = hm"
| "build_headerMap (header # hs) index hm =
     build_headerMap hs (Suc index)
       (case header of
          None \<Rightarrow> hm
        | Some h \<Rightarrow> if h \<noteq> [] \<and> trim h \<noteq> proto_key then hm(trim h \<mapsto> index) else hm)"

record cell_data =
  cvalue :: jsstring
  ccolor :: jsstring

definition getCellData :: "(jsstring \<rightharpoonup> nat) \<Rightarrow> cell list \<Rightarrow> jsstring \<Rightarrow> cell_data" where
  "getCellData headerMap cells headerName =
     (case headerMap headerName of
        None \<Rightarrow> \<lparr>cvalue = [], ccolor = js ''Gray''\<rparr>
      | Some index \<Rightarrow>
          if index < length cells then
            (let c = cells ! index in
             \<lparr>cvalue = (case formattedValue c of None \<Rightarrow> [] | Some v \<Rightarrow> v),
              ccolor = rgbToColorName
                (case effectiveFormat c of None \<Rightarrow> None | Some f \<Rightarrow> backgroundColor f)\<rparr>)
          else \<lparr>cvalue = [], ccolor = js ''Gray''\<rparr>)"

subsection \<open>One data row\<close>

text \<open>\<open>Number(v) || null\<close>.\<close>

definition number_or_null :: "jsstring \<Rightarrow> jsnum option" where
  "number_or_null v = (if truthy_num (Number v) then Some (Number v) else None)"

definition new_entity :: "(jsstring \<rightharpoonup> nat) \<Rightarrow> cell list \<Rightarrow> entity" where
  "new_entity headerMap cells =
     \<lparr>Subheading = SubObj [] None,
      Compliant = number_or_null (cvalue (getCellData headerMap cells (js ''Compliant''))),
      Total = cvalue (getCellData headerMap cells (js ''Total'')),
      Mising = cvalue (getCellData headerMap cells (js ''Mising'')),
      pctCompliant = cvalue (getCellData headerMap cells (js ''% Compliant'')),
      status_C = None,
      status_E = None\<rparr>"

text \<open>
  \<open>Subheading[k] = {colour: c}\<close>, after the source's reset of a \<open>Subheading\<close> that is not an
  object.
\<close>

definition sub_insert :: "jsstring \<Rightarrow> jsstring \<Rightarrow> subheading \<Rightarrow> subheading" where
  "sub_insert k c s =
     (case s of
        SubNum n \<Rightarrow> (if k = proto_key then SubObj [] (Some c) else SubObj [(k, c)] None)
      | SubObj es p \<Rightarrow>
          (if k = proto_key then SubObj es (Some c) else SubObj (AList.update k c es) p))"

record loop_state =
  data :: data_obj
  currentServiceKey :: "jsstring option"

definition name_step :: "(jsstring \<rightharpoonup> nat) \<Rightarrow> cell list \<Rightarrow> loop_state \<Rightarrow> loop_state" where
  "name_step headerMap cells st =
     (let serviceName = cvalue (getCellData headerMap cells (js ''Service'')) in
      if serviceName \<noteq> [] \<and> trim serviceName \<noteq> [] then
        (let key = trim serviceName;
             d1 = set_entity (data st) key (new_entity headerMap cells);
             statusC = getCellData headerMap cells (js ''Status C'');
             d2 = (if cvalue statusC \<noteq> []
                   then modify_entity d1 key
                     (\<lambda>e. e\<lparr>status_C := Some \<lparr>name = cvalue statusC, colour = ccolor statusC\<rparr>\<rparr>)
                   else d1);
             statusE = getCellData headerMap cells (js ''Status E'');
             d3 = (if cvalue statusE \<noteq> []
                   then modify_entity d2 key
                     (\<lambda>e. e\<lparr>status_E := Some \<lparr>name = cvalue statusE, colour = ccolor statusE\<rparr>\<rparr>)
                   else d2)
         in \<lparr>data = d3, currentServiceKey = Some key\<rparr>)
      else st)"

definition subheading_step :: "(jsstring \<rightharpoonup> nat) \<Rightarrow> cell list \<Rightarrow> loop_state \<Rightarrow> loop_state" where
  "subheading_step headerMap cells st =
     (let subheadingCell = getCellData headerMap cells (js ''Subheading'');
          subheadingName = cvalue subheadingCell in
      case currentServiceKey st of
        None \<Rightarrow> st
      | Some key \<Rightarrow>
          if key \<noteq> [] \<and> subheadingName \<noteq> [] \<and> trim subheadingName \<noteq> [] then
            st\<lparr>data := modify_entity (data st) key
                 (\<lambda>e. e\<lparr>Subheading :=
                    sub_insert (trim subheadingName) (ccolor subheadingCell) (Subheading e)\<rparr>)\<rparr>
          else st)"

definition row_cells :: "row_data \<Rightarrow> cell list" where
  "row_cells r = (case row_values r of None \<Rightarrow> [] | Some vs \<Rightarrow> vs)"

definition row_step :: "(jsstring \<rightharpoonup> nat) \<Rightarrow> loop_state \<Rightarrow> row_data \<Rightarrow> loop_state" where
  "row_step headerMap st r =
     subheading_step headerMap (row_cells r) (name_step headerMap (row_cells r) st)"

fun process_rows :: "(jsstring \<rightharpoonup> nat) \<Rightarrow> row_data list \<Rightarrow> loop_state \<Rightarrow> loop_state" where
  "process_rows headerMap [] st = st"
| "process_rows headerMap (r # rs) st = process_rows headerMap rs (row_step headerMap st r)"

definition initial_state :: loop_state where
  "initial_state = \<lparr>data = \<lparr>own = [], proto = None\<rparr>, currentServiceKey = None\<rparr>"

subsection \<open>Final cleanup and the whole parser\<close>

definition sub_truthy :: "subheading \<Rightarrow> bool" where
  "sub_truthy s = (case s of SubObj es p \<Rightarrow> True | SubNum n \<Rightarrow> n \<noteq> 0)"

definition sub_keys :: "subheading \<Rightarrow> jsstring list" where
  "sub_keys s = (case s of SubObj es p \<Rightarrow> map fst es | SubNum n \<Rightarrow> [])"

definition cleanup_entity :: "entity \<Rightarrow> entity" where
  "cleanup_entity e =
     (if sub_truthy (Subheading e) \<and> length (sub_keys (Subheading e)) = 0
      then e\<lparr>Subheading := SubNum 0\<rparr> else e)"

text \<open>
  \<open>for (const serviceKey in data)\<close> visits the own keys and then the enumerable keys of the
  prototype that no own key shadows. When a record was installed as prototype, its fields
  are visited as if they were services: \<open>data['Compliant']\<close> is then that record's
  \<open>Compliant\<close>, and reading \<open>.Subheading\<close> of \<open>null\<close> throws. The other fields hold strings,
  numbers or objects without a \<open>Subheading\<close> that is an empty object, and are left alone.
\<close>

definition cleanup :: "data_obj \<Rightarrow> js_error + data_obj" where
  "cleanup d =
     (case proto d of
        None \<Rightarrow> Inr (d\<lparr>own := map (\<lambda>(k, e). (k, cleanup_entity e)) (own d)\<rparr>)
      | Some p \<Rightarrow>
          if Compliant p = None \<and> js ''Compliant'' \<notin> set (map fst (own d))
          then Inl (TypeError (js ''Cannot read properties of null (reading 'Subheading')''))
          else Inr (d\<lparr>own := map (\<lambda>(k, e). (k, cleanup_entity e)) (own d)\<rparr>))"

text \<open>Lines 65 to 137 of the grid variant: everything after the guard, before the wrapper.\<close>

definition parse_rows :: "row_data list \<Rightarrow> js_error + data_obj" where
  "parse_rows rows =
     (case rows of
        [] \<Rightarrow> Inl (TypeError (js ''Cannot read properties of undefined (reading 'values')''))
      | r0 # rest \<Rightarrow>
          (case row_values r0 of
             None \<Rightarrow> Inl (TypeError (js ''Cannot read properties of undefined (reading 'map')''))
           | Some hcells \<Rightarrow>
               cleanup (data (process_rows
                 (build_headerMap (map formattedValue hcells) 0 Map.empty) rest initial_state))))"

type_synonym sheet_output = "(jsstring \<times> data_obj) list"

definition empty_output :: sheet_output where
  "empty_output = [(SHEET_NAME, \<lparr>own = [], proto = None\<rparr>)]"

definition parseSheetData :: "spreadsheet \<Rightarrow> js_error + sheet_output" where
  "parseSheetData gridData =
     (case find (\<lambda>s. title s = SHEET_NAME) (sheets gridData) of
        None \<Rightarrow> Inr empty_output
      | Some sh \<Rightarrow>
          (case sheet_data sh of
             None \<Rightarrow> Inr empty_output
           | Some ds \<Rightarrow>
               (case ds of
                  [] \<Rightarrow> Inl (TypeError (js ''Cannot read properties of undefined (reading 'rowData')''))
                | d # ds' \<Rightarrow>
                    (case rowData d of
                       None \<Rightarrow> Inr empty_output
                     | Some rows \<Rightarrow>
                         (case parse_rows rows of
                            Inl err \<Rightarrow> Inl err
                          | Inr dat \<Rightarrow> Inr [(SHEET_NAME, dat)])))))"

section \<open>The flat-values variant\<close>

text \<open>
  \<^verbatim>\<open>parseSheetData(rows)\<close> of \<^verbatim>\<open>index.js\<close> reads \<open>response.data.values\<close>: a matrix of
  strings in which the API leaves out trailing empty cells, and which is absent altogether
  for an empty sheet. An index past the end of a row reads \<open>undefined\<close>.
\<close>

datatype jsval = JUndefined | JNull | JNum jsnum | JStr jsstring

definition nth_opt :: "'a list \<Rightarrow> nat \<Rightarrow> 'a option" where
  "nth_opt xs i = (if i < length xs then Some (xs ! i) else None)"

text \<open>A computed property key \<open>[headers[i]]\<close>: \<open>undefined\<close> becomes the key \<open>'undefined'\<close>.\<close>

definition header_key :: "jsstring list \<Rightarrow> nat \<Rightarrow> jsstring" where
  "header_key headers i = (case nth_opt headers i of None \<Rightarrow> js ''undefined'' | Some h \<Rightarrow> h)"

text \<open>\<open>Number(undefined)\<close> is NaN.\<close>

definition Number_cell :: "jsstring option \<Rightarrow> jsnum" where
  "Number_cell c = (case c of None \<Rightarrow> NaN | Some s \<Rightarrow> Number s)"

definition flat_field1 :: "jsstring option \<Rightarrow> jsval" where
  "flat_field1 c =
     (if c = Some (js ''-'') \<or> c = Some (js ''null'') then JNull else JNum (Number_cell c))"

definition flat_field2 :: "jsstring option \<Rightarrow> jsval" where
  "flat_field2 c = (if c = Some (js ''-'') then JNull else JNum (Number_cell c))"

definition flat_text :: "jsstring option \<Rightarrow> jsval" where
  "flat_text c =
     (if c = Some (js ''-'') then JNull else (case c of None \<Rightarrow> JUndefined | Some s \<Rightarrow> JStr s))"

text \<open>
  The object literal with four computed keys: a key that occurs twice keeps its first
  position and its last value. A computed key \<open>__proto__\<close> is an ordinary own property.
\<close>

definition flat_record :: "jsstring list \<Rightarrow> jsstring list \<Rightarrow> (jsstring \<times> jsval) list" where
  "flat_record headers row =
     AList.update (header_key headers 4) (flat_text (nth_opt row 4))
       (AList.update (header_key headers 3) (flat_text (nth_opt row 3))
         (AList.update (header_key headers 2) (flat_field2 (nth_opt row 2))
           (AList.update (header_key headers 1) (flat_field1 (nth_opt row 1)) [])))"

record flat_obj =
  fown :: "(jsstring \<times> (jsstring \<times> jsval) list) list"
  fproto :: "(jsstring \<times> jsval) list option"

definition flat_step :: "jsstring list \<Rightarrow> flat_obj \<Rightarrow> jsstring list \<Rightarrow> flat_obj" where
  "flat_step headers d row =
     (case nth_opt row 0 of
        None \<Rightarrow> d
      | Some serviceName \<Rightarrow>
          if serviceName = [] then d
          else if serviceName = proto_key then d\<lparr>fproto := Some (flat_record headers row)\<rparr>
          else d\<lparr>fown := AList.update serviceName (flat_record headers row) (fown d)\<rparr>)"

fun flat_rows :: "jsstring list \<Rightarrow> jsstring list list \<Rightarrow> flat_obj \<Rightarrow> flat_obj" where
  "flat_rows headers [] d = d"
| "flat_rows headers (row # rows) d = flat_rows headers rows (flat_step headers d row)"

type_synonym flat_output = "(jsstring \<times> flat_obj) list"

definition parseSheetData_flat :: "jsstring list list option \<Rightarrow> js_error + flat_output" where
  "parseSheetData_flat rows =
     (case rows of
        None \<Rightarrow> Inl (TypeError (js ''Cannot read properties of undefined (reading '0')''))
      | Some rs \<Rightarrow>
          Inr [(SHEET_NAME,
                flat_rows (case rs of [] \<Rightarrow> [] | headers # rest \<Rightarrow> headers) (drop 1 rs)
                  \<lparr>fown = [], fproto = None\<rparr>)])"

section \<open>The cache-fronted fetcher and the request handler\<close>

text \<open>
  The module variables \<open>cache\<close> and \<open>cacheTimestamp\<close> are the state; \<open>Date.now()\<close> and the
  outcome of \<open>axios.get\<close> (a rejection, or the response body) are inputs of a call. A call
  returns what the promise settles to, the state it leaves and the number of upstream
  requests it made. Both variants share this body and differ in the parser.
\<close>

record 'o cache_state =
  cache :: "'o option"
  cacheTimestamp :: int

record 'o fetch_result =
  returned :: "js_error + 'o"
  state_after :: "'o cache_state"
  upstream_calls :: nat

definition CACHE_DURATION :: int where
  "CACHE_DURATION = 30 * 1000"

definition initial_cache :: "'o cache_state" where
  "initial_cache = \<lparr>cache = None, cacheTimestamp = 0\<rparr>"

definition fetch_cached ::
  "('r \<Rightarrow> js_error + 'o) \<Rightarrow> int \<Rightarrow> js_error + 'r \<Rightarrow> 'o cache_state \<Rightarrow> 'o fetch_result" where
  "fetch_cached parse now upstream st =
     (case (if now - cacheTimestamp st < CACHE_DURATION then cache st else None) of
        Some c \<Rightarrow> \<lparr>returned = Inr c, state_after = st, upstream_calls = 0\<rparr>
      | None \<Rightarrow>
          (case upstream of
             Inl err \<Rightarrow> \<lparr>returned = Inl err, state_after = st, upstream_calls = 1\<rparr>
           | Inr response \<Rightarrow>
               (case parse response of
                  Inl err \<Rightarrow> \<lparr>returned = Inl err, state_after = st, upstream_calls = 1\<rparr>
                | Inr jsonData \<Rightarrow>
                    \<lparr>returned = Inr jsonData,
                     state_after = \<lparr>cache = Some jsonData, cacheTimestamp = now\<rparr>,
                     upstream_calls = 1\<rparr>)))"

definition fetchSheetData ::
  "int \<Rightarrow> js_error + spreadsheet \<Rightarrow> sheet_output cache_state \<Rightarrow> sheet_output fetch_result" where
  "fetchSheetData = fetch_cached parseSheetData"

definition fetchSheetData_flat ::
  "int \<Rightarrow> js_error + jsstring list list option \<Rightarrow> flat_output cache_state
     \<Rightarrow> flat_output fetch_result" where
  "fetchSheetData_flat = fetch_cached parseSheetData_flat"

text \<open>The route \<^verbatim>\<open>GET /api/sheet-data\<close>: the body of the response and the state left.\<close>

datatype 'o http_response = Json200 'o | Json500 (error: jsstring) (details: jsstring)

definition respond :: "'o fetch_result \<Rightarrow> 'o http_response \<times> 'o cache_state" where
  "respond r =
     (case returned r of
        Inr jsonData \<Rightarrow> (Json200 jsonData, state_after r)
      | Inl err \<Rightarrow> (Json500 (js ''Failed to fetch sheet data'') (message err), state_after r))"

definition handler ::
  "int \<Rightarrow> js_error + spreadsheet \<Rightarrow> sheet_output cache_state
     \<Rightarrow> sheet_output http_response \<times> sheet_output cache_state" where
  "handler now upstream st = respond (fetchSheetData now upstream st)"

definition handler_flat ::
  "int \<Rightarrow> js_error + jsstring list list option \<Rightarrow> flat_output cache_state
     \<Rightarrow> flat_output http_response \<times> flat_output cache_state" where
  "handler_flat now upstream st = respond (fetchSheetData_flat now upstream st)"


section \<open>Invariants and sample inputs\<close>

subsection \<open>What the row loop maintains\<close>

text \<open>
  A property of every record that \<open>data\<close> can reach: its own properties and the record
  installed as prototype, each with the key it was stored under.
\<close>

definition all_entities :: "(jsstring \<Rightarrow> entity \<Rightarrow> bool) \<Rightarrow> data_obj \<Rightarrow> bool" where
  "all_entities P d =
     ((\<forall>k e. map_of (own d) k = Some e \<longrightarrow> P k e) \<and> (\<forall>e. proto d = Some e \<longrightarrow> P proto_key e))"

text \<open>
  The open record exists: whenever \<open>currentServiceKey\<close> is set it is a non-empty key under
  which \<open>data\<close> holds a record, so the reads \<open>data[currentServiceKey]\<close> of the loop never
  meet \<open>undefined\<close>.
\<close>

definition current_defined :: "loop_state \<Rightarrow> bool" where
  "current_defined st =
     (case currentServiceKey st of
        None \<Rightarrow> True
      | Some key \<Rightarrow> key \<noteq> [] \<and> get_entity (data st) key \<noteq> None)"

text \<open>The compliant field of a record is \<open>null\<close> or a truthy number.\<close>

definition compliant_ok :: "entity \<Rightarrow> bool" where
  "compliant_ok e = (case Compliant e of None \<Rightarrow> True | Some n \<Rightarrow> truthy_num n)"

text \<open>
  What the loop maintains for the \<open>Subheading\<close> of every record: it is an object, and each
  of its entries was written for a data row, under the trimmed non-empty text of that
  row's subheading cell and with that cell's colour.
\<close>

definition sub_from_rows :: "(jsstring \<rightharpoonup> nat) \<Rightarrow> row_data list \<Rightarrow> entity \<Rightarrow> bool" where
  "sub_from_rows hm rows e =
     (\<exists>es p. Subheading e = SubObj es p
        \<and> (\<forall>(n, c) \<in> set es. n \<noteq> []
              \<and> (\<exists>r \<in> set rows.
                    n = trim (cvalue (getCellData hm (row_cells r) (js ''Subheading'')))
                    \<and> c = ccolor (getCellData hm (row_cells r) (js ''Subheading'')))))"

text \<open>
  What the loop maintains for the record stored under \<open>k\<close>: a data row whose trimmed name
  is \<open>k\<close> supplied its compliant, total, missing and percentage fields.
\<close>

definition from_name_row :: "(jsstring \<rightharpoonup> nat) \<Rightarrow> row_data list \<Rightarrow> jsstring \<Rightarrow> entity \<Rightarrow> bool" where
  "from_name_row hm rows k e =
     (k \<noteq> []
      \<and> (\<exists>r \<in> set rows.
            k = trim (cvalue (getCellData hm (row_cells r) (js ''Service'')))
            \<and> Compliant e = number_or_null (cvalue (getCellData hm (row_cells r) (js ''Compliant'')))
            \<and> Total e = cvalue (getCellData hm (row_cells r) (js ''Total''))
            \<and> Mising e = cvalue (getCellData hm (row_cells r) (js ''Mising''))
            \<and> pctCompliant e = cvalue (getCellData hm (row_cells r) (js ''% Compliant''))))"

text \<open>The status object that a status cell yields: none when its text is empty.\<close>

definition status_of :: "cell_data \<Rightarrow> status option" where
  "status_of c = (if cvalue c \<noteq> [] then Some \<lparr>name = cvalue c, colour = ccolor c\<rparr> else None)"

subsection \<open>Sample inputs\<close>

text \<open>A cell holding a text and no format, the header row of the sheet, and a spreadsheet
  whose only sheet holds that header and the given data rows.\<close>

definition text_cell :: "string \<Rightarrow> cell" where
  "text_cell s = \<lparr>formattedValue = Some (js s), effectiveFormat = None\<rparr>"

definition sample_header :: row_data where
  "sample_header = \<lparr>row_values = Some (map text_cell
     [''Service'', ''Subheading'', ''Compliant'', ''Total'', ''Mising'', ''% Compliant''])\<rparr>"

definition sample_grid :: "row_data list \<Rightarrow> spreadsheet" where
  "sample_grid rows =
     \<lparr>sheets = [\<lparr>title = js ''Sheet1'', sheet_data = Some [\<lparr>rowData = Some (sample_header # rows)\<rparr>]\<rparr>]\<rparr>"

text \<open>
  Three data rows: a record \<open>API\<close>, a row that only names the subheading \<open>Latency\<close>, and a
  record \<open>DB\<close> with placeholder cells and no subheading.
\<close>

definition sample_rows :: "row_data list" where
  "sample_rows =
     [\<lparr>row_values = Some (map text_cell [''API'', [], ''42'', ''100'', ''5'', ''95%''])\<rparr>,
      \<lparr>row_values = Some (map text_cell [[], ''Latency''])\<rparr>,
      \<lparr>row_values = Some (map text_cell [''DB'', [], ''-'', ''-'', ''-'', ''-''])\<rparr>]"

text \<open>A values matrix for the flat variant: the header row and the given data rows.\<close>

definition sample_values :: "string list list \<Rightarrow> jsstring list list option" where
  "sample_values rows =
     Some (map (map js) ([''Service'', ''Compliant'', ''Total'', ''Mising'', ''%Compliant''] # rows))"

section \<open>Basic facts\<close>

lemma js_simps:
  "js [] = []" "js (c # cs) = of_char c # js cs"
  by (simp_all add: js_def)

lemma js_lits:
  "js ''Red'' \<noteq> js ''Green''" "js ''Red'' \<noteq> js ''Gray''" "js ''Green'' \<noteq> js ''Gray''"
  "js ''Green'' \<noteq> js ''Red''" "js ''Gray'' \<noteq> js ''Red''" "js ''Gray'' \<noteq> js ''Green''"
  by (simp_all add: js_simps)

subsection \<open>The cache\<close>

lemma fetch_cached_hit:
  "cache st = Some c \<Longrightarrow> now - cacheTimestamp st < CACHE_DURATION \<Longrightarrow>
   fetch_cached parse now upstream st = \<lparr>returned = Inr c, state_after = st, upstream_calls = 0\<rparr>"
  by (simp add: fetch_cached_def)

lemma fetch_cached_miss:
  "cache st = None \<or> \<not> now - cacheTimestamp st < CACHE_DURATION \<Longrightarrow>
   fetch_cached parse now upstream st =
     (case upstream of
        Inl err \<Rightarrow> \<lparr>returned = Inl err, state_after = st, upstream_calls = 1\<rparr>
      | Inr response \<Rightarrow>
          (case parse response of
             Inl err \<Rightarrow> \<lparr>returned = Inl err, state_after = st, upstream_calls = 1\<rparr>
           | Inr jsonData \<Rightarrow>
               \<lparr>returned = Inr jsonData,
                state_after = \<lparr>cache = Some jsonData, cacheTimestamp = now\<rparr>,
                upstream_calls = 1\<rparr>))"
  by (auto simp add: fetch_cached_def)

lemma fetch_cached_fetched:
  assumes "upstream_calls (fetch_cached parse now upstream st) = 1"
    and "returned (fetch_cached parse now upstream st) = Inr v"
  shows "state_after (fetch_cached parse now upstream st) = \<lparr>cache = Some v, cacheTimestamp = now\<rparr>"
  using assms by (auto simp add: fetch_cached_def split: option.splits sum.splits if_splits)

lemma fetch_cached_twice:
  assumes "upstream_calls (fetch_cached parse now1 up1 st) = 1"
    and "returned (fetch_cached parse now1 up1 st) = Inr v"
    and "now2 - now1 < CACHE_DURATION"
  shows "fetch_cached parse now2 up2 (state_after (fetch_cached parse now1 up1 st))
         = \<lparr>returned = Inr v, state_after = state_after (fetch_cached parse now1 up1 st),
            upstream_calls = 0\<rparr>"
  using assms by (simp add: fetch_cached_fetched fetch_cached_hit)

lemma fetch_cached_stale:
  "\<not> now - cacheTimestamp st < CACHE_DURATION \<Longrightarrow>
   upstream_calls (fetch_cached parse now upstream st) = 1"
  by (simp add: fetch_cached_miss split: sum.splits)

lemma fetch_cached_failure:
  assumes "cache st = None \<or> \<not> now - cacheTimestamp st < CACHE_DURATION"
    and "upstream = Inl err \<or> (upstream = Inr resp \<and> parse resp = Inl err)"
  shows "respond (fetch_cached parse now upstream st)
         = (Json500 (js ''Failed to fetch sheet data'') (message err), st)"
  using assms(2) by (auto simp add: fetch_cached_miss [OF assms(1)] respond_def)

lemma fetch_cached_all_or_nothing:
  "(case returned (fetch_cached parse now upstream st) of
      Inl err \<Rightarrow> state_after (fetch_cached parse now upstream st) = st
    | Inr v \<Rightarrow>
        (if upstream_calls (fetch_cached parse now upstream st) = 0
         then state_after (fetch_cached parse now upstream st) = st \<and> cache st = Some v
         else state_after (fetch_cached parse now upstream st)
              = \<lparr>cache = Some v, cacheTimestamp = now\<rparr>))"
  by (auto simp add: fetch_cached_def split: option.splits sum.splits if_splits)

subsection \<open>Errors of the parsers carry a message\<close>

lemma cleanup_error_message: "cleanup d = Inl err \<Longrightarrow> message err \<noteq> []"
  by (auto simp add: cleanup_def js_simps split: option.splits if_splits)

lemma parse_rows_error_message: "parse_rows rows = Inl err \<Longrightarrow> message err \<noteq> []"
  by (auto simp add: parse_rows_def js_simps split: list.splits option.splits
      dest: cleanup_error_message)

lemma parseSheetData_error_message: "parseSheetData g = Inl err \<Longrightarrow> message err \<noteq> []"
  by (auto simp add: parseSheetData_def js_simps split: list.splits option.splits sum.splits
      dest: parse_rows_error_message)

lemma parseSheetData_flat_error_message: "parseSheetData_flat rows = Inl err \<Longrightarrow> message err \<noteq> []"
  by (auto simp add: parseSheetData_flat_def js_simps split: option.splits)


text \<open>The definitions that the simplifier unfolds to run the grid parser on a sample.\<close>

lemmas eval_defs = parseSheetData_def parse_rows_def sample_grid_def sample_header_def text_cell_def
  SHEET_NAME_def js_simps cleanup_def cleanup_entity_def sub_truthy_def sub_keys_def
  initial_state_def row_step_def row_cells_def name_step_def subheading_step_def
  getCellData_def new_entity_def status_of_def sub_insert_def set_entity_def modify_entity_def
  proto_key_def number_or_null_def truthy_num_def trim_def is_ws_def rgbToColorName_def
  channel_def Let_def


section \<open>Invariants of the row loop\<close>

lemma all_entities_own: "all_entities P d \<Longrightarrow> map_of (own d) k = Some e \<Longrightarrow> P k e"
  by (simp add: all_entities_def)

lemma all_entities_initial: "all_entities P (data initial_state)"
  by (simp add: all_entities_def initial_state_def)

lemma all_entities_set:
  "all_entities P d \<Longrightarrow> P k e \<Longrightarrow> all_entities P (set_entity d k e)"
  by (auto simp add: all_entities_def set_entity_def update_conv')

lemma all_entities_modify:
  assumes "all_entities P d" and "\<And>e. P k e \<Longrightarrow> P k (f e)"
  shows "all_entities P (modify_entity d k f)"
  using assms
  by (auto simp add: all_entities_def modify_entity_def map_of_map_entry split: option.splits)

lemma all_entities_name_step:
  assumes inv: "all_entities P (data st)"
    and new: "\<And>k. cvalue (getCellData hm cells (js ''Service'')) \<noteq> [] \<Longrightarrow>
                  k = trim (cvalue (getCellData hm cells (js ''Service''))) \<Longrightarrow> k \<noteq> [] \<Longrightarrow>
                  P k (new_entity hm cells)"
    and stC: "\<And>k e s. P k e \<Longrightarrow> P k (e\<lparr>status_C := s\<rparr>)"
    and stE: "\<And>k e s. P k e \<Longrightarrow> P k (e\<lparr>status_E := s\<rparr>)"
  shows "all_entities P (data (name_step hm cells st))"
  using inv new
  by (auto simp add: name_step_def Let_def intro!: all_entities_modify all_entities_set stC stE)

lemma all_entities_subheading_step:
  assumes inv: "all_entities P (data st)"
    and sub: "\<And>k e. P k e \<Longrightarrow> cvalue (getCellData hm cells (js ''Subheading'')) \<noteq> [] \<Longrightarrow>
                 trim (cvalue (getCellData hm cells (js ''Subheading''))) \<noteq> [] \<Longrightarrow>
                 P k (e\<lparr>Subheading :=
                    sub_insert (trim (cvalue (getCellData hm cells (js ''Subheading''))))
                      (ccolor (getCellData hm cells (js ''Subheading''))) (Subheading e)\<rparr>)"
  shows "all_entities P (data (subheading_step hm cells st))"
  using inv
  by (auto simp add: subheading_step_def Let_def split: option.splits
      intro!: all_entities_modify sub)

lemma process_rows_invariant:
  assumes "Q st" and "\<And>s r. r \<in> set rows \<Longrightarrow> Q s \<Longrightarrow> Q (row_step hm s r)"
  shows "Q (process_rows hm rows st)"
  using assms by (induction rows arbitrary: st) auto

lemma cleanup_own:
  "cleanup d = Inr out \<Longrightarrow>
   map_of (own out) k = map_option cleanup_entity (map_of (own d) k) \<and> proto out = proto d"
  by (auto simp add: cleanup_def map_of_map split: option.splits if_splits)

text \<open>How the three guards of \<open>parseSheetData\<close> lead to the row loop.\<close>

lemma parseSheetData_rows:
  assumes "find (\<lambda>s. title s = SHEET_NAME) (sheets g) = Some sh"
    and "sheet_data sh = Some (d # ds)" and "rowData d = Some rows"
  shows "parseSheetData g =
           (case parse_rows rows of Inl err \<Rightarrow> Inl err | Inr dat \<Rightarrow> Inr [(SHEET_NAME, dat)])"
  using assms by (simp add: parseSheetData_def)

lemma parse_rows_header:
  assumes "row_values r0 = Some hcells"
  shows "parse_rows (r0 # rows) =
           cleanup (data (process_rows (build_headerMap (map formattedValue hcells) 0 Map.empty)
             rows initial_state))"
  using assms by (simp add: parse_rows_def)

lemma parseSheetData_Inr_cases:
  assumes "parseSheetData g = Inr res"
  shows "res = empty_output
         \<or> (\<exists>sh d ds r0 rows hcells out.
              find (\<lambda>s. title s = SHEET_NAME) (sheets g) = Some sh
              \<and> sheet_data sh = Some (d # ds) \<and> rowData d = Some (r0 # rows)
              \<and> row_values r0 = Some hcells
              \<and> cleanup (data (process_rows
                    (build_headerMap (map formattedValue hcells) 0 Map.empty) rows initial_state))
                  = Inr out
              \<and> res = [(SHEET_NAME, out)])"
  using assms
  by (auto simp add: parseSheetData_def parse_rows_def
      split: option.splits list.splits sum.splits)


section \<open>Number conversion and the compliant field\<close>

lemma Number_literals:
  "Number [] = Fin 0" "Number (js ''0'') = Fin 0"
  "Number (js ''-'') = NaN" "Number (js ''null'') = NaN"
  by (simp_all add: Number_def js_simps trim_def is_ws_def parse_unsigned_decimal_def
      is_digit_def parse_exponent_def digits_val_def digit_val_def number_value_def pow10_def)

lemma number_or_null_falsy:
  "Number v = NaN \<or> Number v = Fin 0 \<or> Number v = NegZero \<Longrightarrow> number_or_null v = None"
  by (auto simp add: number_or_null_def truthy_num_def)

lemma number_or_null_truthy:
  "number_or_null v = Some n \<Longrightarrow> n = Number v \<and> n \<noteq> NaN \<and> n \<noteq> Fin 0 \<and> n \<noteq> NegZero"
  by (auto simp add: number_or_null_def truthy_num_def split: if_splits)

lemma compliant_ok_new: "compliant_ok (new_entity hm cells)"
  by (simp add: compliant_ok_def new_entity_def number_or_null_def)

lemma loop_compliant_ok:
  "all_entities (\<lambda>k. compliant_ok) (data (process_rows hm rows initial_state))"
proof (rule process_rows_invariant)
  show "all_entities (\<lambda>k. compliant_ok) (data initial_state)"
    by (rule all_entities_initial)
next
  fix s :: loop_state and r
  assume inv: "all_entities (\<lambda>k. compliant_ok) (data s)"
  have "all_entities (\<lambda>k. compliant_ok) (data (name_step hm (row_cells r) s))"
    by (rule all_entities_name_step [OF inv compliant_ok_new]) (simp_all add: compliant_ok_def)
  then show "all_entities (\<lambda>k. compliant_ok) (data (row_step hm s r))"
    unfolding row_step_def by (rule all_entities_subheading_step) (simp add: compliant_ok_def)
qed

lemma cleanup_entity_fields:
  "Compliant (cleanup_entity e) = Compliant e" "Total (cleanup_entity e) = Total e"
  "Mising (cleanup_entity e) = Mising e" "pctCompliant (cleanup_entity e) = pctCompliant e"
  "status_C (cleanup_entity e) = status_C e" "status_E (cleanup_entity e) = status_E e"
  by (simp_all add: cleanup_entity_def)

lemma output_entity_origin:
  assumes "parseSheetData g = Inr res" and "map_of res SHEET_NAME = Some out"
    and "map_of (own out) k = Some e"
  shows "\<exists>sh d ds r0 rows hcells e0.
           find (\<lambda>s. title s = SHEET_NAME) (sheets g) = Some sh
           \<and> sheet_data sh = Some (d # ds) \<and> rowData d = Some (r0 # rows)
           \<and> row_values r0 = Some hcells
           \<and> map_of (own (data (process_rows
                 (build_headerMap (map formattedValue hcells) 0 Map.empty) rows initial_state))) k
               = Some e0
           \<and> e = cleanup_entity e0"
proof -
  from parseSheetData_Inr_cases [OF assms(1)] show ?thesis
  proof (elim disjE exE conjE)
    assume "res = empty_output"
    with assms(2) have "own out = []"
      by (auto simp add: empty_output_def)
    with assms(3) show ?thesis by simp
  next
    fix sh d ds r0 rows hcells out'
    assume origin: "find (\<lambda>s. title s = SHEET_NAME) (sheets g) = Some sh"
      "sheet_data sh = Some (d # ds)" "rowData d = Some (r0 # rows)" "row_values r0 = Some hcells"
      and clean: "cleanup (data (process_rows
          (build_headerMap (map formattedValue hcells) 0 Map.empty) rows initial_state)) = Inr out'"
      and res: "res = [(SHEET_NAME, out')]"
    from res assms(2) have "out' = out" by simp
    with cleanup_own [OF clean, of k] assms(3)
    have "map_option cleanup_entity (map_of (own (data (process_rows
          (build_headerMap (map formattedValue hcells) 0 Map.empty) rows initial_state))) k)
        = Some e"
      by simp
    then obtain e0 where "map_of (own (data (process_rows
          (build_headerMap (map formattedValue hcells) 0 Map.empty) rows initial_state))) k
        = Some e0" "e = cleanup_entity e0"
      by auto
    with origin show ?thesis by blast
  qed
qed

lemma output_compliant_ok:
  assumes "parseSheetData g = Inr res" and "map_of res SHEET_NAME = Some out"
    and "map_of (own out) k = Some e"
  shows "compliant_ok e"
proof -
  from output_entity_origin [OF assms] obtain hm rows e0
    where e0: "map_of (own (data (process_rows hm rows initial_state))) k = Some e0"
      and e: "e = cleanup_entity e0"
    by blast
  have "compliant_ok e0"
    by (rule all_entities_own [OF loop_compliant_ok e0])
  with e show ?thesis
    by (simp add: compliant_ok_def cleanup_entity_fields)
qed


section \<open>The grid parser on the sample rows\<close>

lemma Number_42: "Number [52, 50] = Fin 42"
  by (simp add: Number_def trim_def is_ws_def parse_unsigned_decimal_def js_simps
      is_digit_def parse_exponent_def digits_val_def digit_val_def number_value_def pow10_def)

lemma Number_dash: "Number [45] = NaN"
  using Number_literals(3) by (simp add: js_simps)

lemma sample_rows_loop:
  "data (process_rows (build_headerMap (map formattedValue (map text_cell
      [''Service'', ''Subheading'', ''Compliant'', ''Total'', ''Mising'', ''% Compliant'']))
      0 Map.empty) sample_rows initial_state)
   = \<lparr>own =
        [(js ''API'',
          \<lparr>Subheading = SubObj [(js ''Latency'', js ''Gray'')] None, Compliant = Some (Fin 42),
           Total = js ''100'', Mising = js ''5'', pctCompliant = js ''95%'',
           status_C = None, status_E = None\<rparr>),
         (js ''DB'',
          \<lparr>Subheading = SubObj [] None, Compliant = None,
           Total = js ''-'', Mising = js ''-'', pctCompliant = js ''-'',
           status_C = None, status_E = None\<rparr>)],
      proto = None\<rparr>"
  by (simp add: sample_rows_def eval_defs Number_42 Number_dash)

lemma sample_rows_parsed:
  "parseSheetData (sample_grid sample_rows)
   = Inr [(js ''Sheet1'',
       \<lparr>own =
          [(js ''API'',
            \<lparr>Subheading = SubObj [(js ''Latency'', js ''Gray'')] None, Compliant = Some (Fin 42),
             Total = js ''100'', Mising = js ''5'', pctCompliant = js ''95%'',
             status_C = None, status_E = None\<rparr>),
           (js ''DB'',
            \<lparr>Subheading = SubNum 0, Compliant = None,
             Total = js ''-'', Mising = js ''-'', pctCompliant = js ''-'',
             status_C = None, status_E = None\<rparr>)],
        proto = None\<rparr>)]"
  by (simp add: sample_rows_def eval_defs Number_42 Number_dash)

lemma sample_grid_found:
  "find (\<lambda>s. title s = SHEET_NAME) (sheets (sample_grid rows))
   = Some \<lparr>title = js ''Sheet1'', sheet_data = Some [\<lparr>rowData = Some (sample_header # rows)\<rparr>]\<rparr>"
  by (simp add: sample_grid_def SHEET_NAME_def)


section \<open>Rows before the first named row\<close>

lemma name_step_nameless:
  "trim (cvalue (getCellData hm cells (js ''Service''))) = [] \<Longrightarrow> name_step hm cells st = st"
  by (simp add: name_step_def)

lemma row_step_nameless_closed:
  assumes "trim (cvalue (getCellData hm (row_cells r) (js ''Service''))) = []"
    and "currentServiceKey st = None"
  shows "row_step hm st r = st"
  using assms by (simp add: row_step_def name_step_nameless subheading_step_def)

lemma process_rows_nameless_prefix:
  assumes "\<forall>r \<in> set pre. trim (cvalue (getCellData hm (row_cells r) (js ''Service''))) = []"
    and "currentServiceKey st = None"
  shows "process_rows hm (pre @ rest) st = process_rows hm rest st"
  using assms by (induction pre) (simp_all add: row_step_nameless_closed)

lemma parseSheetData_malformed:
  assumes "find (\<lambda>s. title s = SHEET_NAME) (sheets g) = None
           \<or> (\<exists>sh. find (\<lambda>s. title s = SHEET_NAME) (sheets g) = Some sh
                 \<and> (sheet_data sh = None
                     \<or> (\<exists>d ds. sheet_data sh = Some (d # ds) \<and> rowData d = None)))"
  shows "parseSheetData g = Inr [(SHEET_NAME, \<lparr>own = [], proto = None\<rparr>)]"
  using assms by (auto simp add: parseSheetData_def empty_output_def)

text \<open>
  The guard tests the fields, not their lengths: an empty \<open>data\<close> array, an empty \<open>rowData\<close>
  array and a header row without \<open>values\<close> pass it and make the parser throw.
\<close>

lemma parseSheetData_empty_arrays_throw:
  "parseSheetData \<lparr>sheets = [\<lparr>title = js ''Sheet1'', sheet_data = Some []\<rparr>]\<rparr>
     = Inl (TypeError (js ''Cannot read properties of undefined (reading 'rowData')''))"
  "parseSheetData
      \<lparr>sheets = [\<lparr>title = js ''Sheet1'', sheet_data = Some [\<lparr>rowData = Some []\<rparr>]\<rparr>]\<rparr>
     = Inl (TypeError (js ''Cannot read properties of undefined (reading 'values')''))"
  "parseSheetData
      \<lparr>sheets = [\<lparr>title = js ''Sheet1'',
                   sheet_data = Some [\<lparr>rowData = Some [\<lparr>row_values = None\<rparr>]\<rparr>]\<rparr>]\<rparr>
     = Inl (TypeError (js ''Cannot read properties of undefined (reading 'map')''))"
  by (simp_all add: parseSheetData_def parse_rows_def SHEET_NAME_def)


section \<open>The subheading mapping\<close>

lemma set_update_subset: "set (AList.update k v al) \<subseteq> insert (k, v) (set al)"
  by (induction al) auto

lemma get_entity_modify:
  "get_entity (modify_entity d k f) k = map_option f (get_entity d k)"
  by (simp add: get_entity_def modify_entity_def map_of_map_entry split: option.splits)

lemma get_entity_set: "get_entity (set_entity d k e) k = Some e"
  by (simp add: get_entity_def set_entity_def update_conv')

lemma sub_from_rows_new: "sub_from_rows hm rows (new_entity hm' cells)"
  by (simp add: sub_from_rows_def new_entity_def)

lemma sub_from_rows_insert:
  assumes "sub_from_rows hm rows e" and "r \<in> set rows"
    and "trim (cvalue (getCellData hm (row_cells r) (js ''Subheading''))) \<noteq> []"
  shows "sub_from_rows hm rows (e\<lparr>Subheading :=
           sub_insert (trim (cvalue (getCellData hm (row_cells r) (js ''Subheading''))))
             (ccolor (getCellData hm (row_cells r) (js ''Subheading''))) (Subheading e)\<rparr>)"
proof -
  define Q where "Q = (\<lambda>n c. n \<noteq> []
        \<and> (\<exists>r \<in> set rows.
              n = trim (cvalue (getCellData hm (row_cells r) (js ''Subheading'')))
              \<and> c = ccolor (getCellData hm (row_cells r) (js ''Subheading''))))"
  have unfold: "sub_from_rows hm rows x
      = (\<exists>es p. Subheading x = SubObj es p \<and> (\<forall>(n, c) \<in> set es. Q n c))" for x
    unfolding sub_from_rows_def Q_def ..
  let ?n = "trim (cvalue (getCellData hm (row_cells r) (js ''Subheading'')))"
  let ?c = "ccolor (getCellData hm (row_cells r) (js ''Subheading''))"
  from assms(1) obtain es p where sub: "Subheading e = SubObj es p"
    and old: "\<forall>(n, c) \<in> set es. Q n c"
    unfolding unfold by blast
  have new: "Q ?n ?c"
    unfolding Q_def using assms(2,3) by blast
  have upd: "\<forall>(n, c) \<in> set (AList.update ?n ?c es). Q n c"
  proof (clarify)
    fix n c
    assume "(n, c) \<in> set (AList.update ?n ?c es)"
    then have "(n, c) = (?n, ?c) \<or> (n, c) \<in> set es"
      using set_update_subset [of ?n ?c es] by blast
    then show "Q n c"
      using old new by blast
  qed
  show ?thesis
  proof (cases "?n = proto_key")
    case True
    then have "Subheading (e\<lparr>Subheading := sub_insert ?n ?c (Subheading e)\<rparr>) = SubObj es (Some ?c)"
      using sub by (simp add: sub_insert_def)
    with old show ?thesis
      unfolding unfold by blast
  next
    case False
    then have "Subheading (e\<lparr>Subheading := sub_insert ?n ?c (Subheading e)\<rparr>)
        = SubObj (AList.update ?n ?c es) p"
      using sub by (simp add: sub_insert_def)
    with upd show ?thesis
      unfolding unfold by blast
  qed
qed

lemma loop_sub_from_rows:
  "all_entities (\<lambda>k. sub_from_rows hm rows) (data (process_rows hm rows initial_state))"
proof (rule process_rows_invariant)
  show "all_entities (\<lambda>k. sub_from_rows hm rows) (data initial_state)"
    by (rule all_entities_initial)
next
  fix s :: loop_state and r
  assume r: "r \<in> set rows" and inv: "all_entities (\<lambda>k. sub_from_rows hm rows) (data s)"
  have "all_entities (\<lambda>k. sub_from_rows hm rows) (data (name_step hm (row_cells r) s))"
    by (rule all_entities_name_step [OF inv sub_from_rows_new]) (simp_all add: sub_from_rows_def)
  then show "all_entities (\<lambda>k. sub_from_rows hm rows) (data (row_step hm s r))"
    unfolding row_step_def
    by (rule all_entities_subheading_step) (rule sub_from_rows_insert [OF _ r])
qed

lemma cleanup_entity_Subheading:
  "Subheading e = SubObj es p \<Longrightarrow>
   Subheading (cleanup_entity e) = (if es = [] then SubNum 0 else SubObj es p)"
  by (simp add: cleanup_entity_def sub_truthy_def sub_keys_def)

lemma subheading_step_attaches:
  assumes "currentServiceKey st = Some key" and "key \<noteq> []"
    and "get_entity (data st) key = Some e1" and "Subheading e1 = SubObj es1 p1"
    and "trim (cvalue (getCellData hm cells (js ''Subheading''))) \<noteq> []"
    and "trim (cvalue (getCellData hm cells (js ''Subheading''))) \<noteq> proto_key"
  shows "\<exists>e2 es2. get_entity (data (subheading_step hm cells st)) key = Some e2
           \<and> Subheading e2 = SubObj es2 p1 \<and> es2 \<noteq> []
           \<and> map_of es2 (trim (cvalue (getCellData hm cells (js ''Subheading''))))
               = Some (ccolor (getCellData hm cells (js ''Subheading'')))"
proof -
  have nonempty: "cvalue (getCellData hm cells (js ''Subheading'')) \<noteq> []"
    using assms(5) by (auto simp add: trim_def)
  show ?thesis
    using assms nonempty
    by (simp add: subheading_step_def Let_def get_entity_modify sub_insert_def update_conv')
qed

text \<open>
  The cleanup on the records of the output: \<open>Subheading\<close> is 0 exactly when the object that
  the loop left has no entry, and is that object otherwise; the entries come from data rows.
  A subheading row whose trimmed text is not \<open>__proto__\<close> adds an entry to the open record.
\<close>

lemma subheading_zero_iff_no_entry:
  "(find (\<lambda>s. title s = SHEET_NAME) (sheets g) = Some sh \<and> sheet_data sh = Some (d # ds)
      \<and> rowData d = Some (r0 # rows) \<and> row_values r0 = Some hcells
      \<and> hm = build_headerMap (map formattedValue hcells) 0 Map.empty
      \<and> parseSheetData g = Inr res \<and> map_of res SHEET_NAME = Some out
      \<and> map_of (own out) k = Some e
     \<longrightarrow> (\<exists>e0 es p.
            map_of (own (data (process_rows hm rows initial_state))) k = Some e0
            \<and> Subheading e0 = SubObj es p
            \<and> e = cleanup_entity e0
            \<and> (Subheading e = SubNum 0 \<longleftrightarrow> es = [])
            \<and> (es \<noteq> [] \<longrightarrow> Subheading e = SubObj es p)
            \<and> (\<forall>p'. Subheading e \<noteq> SubObj [] p')
            \<and> (\<forall>(n, c) \<in> set es. n \<noteq> []
                  \<and> (\<exists>r \<in> set rows.
                        n = trim (cvalue (getCellData hm (row_cells r) (js ''Subheading'')))
                        \<and> c = ccolor (getCellData hm (row_cells r) (js ''Subheading''))))))
   \<and> (currentServiceKey st = Some key \<and> key \<noteq> []
        \<and> get_entity (data st) key = Some e1 \<and> Subheading e1 = SubObj es1 p1
        \<and> trim (cvalue (getCellData hm' cells (js ''Subheading''))) \<noteq> []
        \<and> trim (cvalue (getCellData hm' cells (js ''Subheading''))) \<noteq> proto_key
     \<longrightarrow> (\<exists>e2 es2. get_entity (data (subheading_step hm' cells st)) key = Some e2
            \<and> Subheading e2 = SubObj es2 p1 \<and> es2 \<noteq> []
            \<and> map_of es2 (trim (cvalue (getCellData hm' cells (js ''Subheading''))))
                = Some (ccolor (getCellData hm' cells (js ''Subheading'')))))"
proof (intro conjI impI)
  assume a: "find (\<lambda>s. title s = SHEET_NAME) (sheets g) = Some sh \<and> sheet_data sh = Some (d # ds)
      \<and> rowData d = Some (r0 # rows) \<and> row_values r0 = Some hcells
      \<and> hm = build_headerMap (map formattedValue hcells) 0 Map.empty
      \<and> parseSheetData g = Inr res \<and> map_of res SHEET_NAME = Some out
      \<and> map_of (own out) k = Some e"
  then have hm: "hm = build_headerMap (map formattedValue hcells) 0 Map.empty" by simp
  from a have "parse_rows (r0 # rows) = Inr out"
    by (auto simp add: parseSheetData_rows [of g sh d ds "r0 # rows"] split: sum.splits)
  with a hm have clean: "cleanup (data (process_rows hm rows initial_state)) = Inr out"
    by (simp add: parse_rows_header)
  from cleanup_own [OF clean, of k] a
  have "map_option cleanup_entity (map_of (own (data (process_rows hm rows initial_state))) k)
      = Some e"
    by simp
  then obtain e0 where e0: "map_of (own (data (process_rows hm rows initial_state))) k = Some e0"
    and e: "e = cleanup_entity e0"
    by auto
  have "sub_from_rows hm rows e0"
    by (rule all_entities_own [OF loop_sub_from_rows e0])
  then obtain es p where sub: "Subheading e0 = SubObj es p"
    and entries: "\<forall>(n, c) \<in> set es. n \<noteq> []
        \<and> (\<exists>r \<in> set rows.
              n = trim (cvalue (getCellData hm (row_cells r) (js ''Subheading'')))
              \<and> c = ccolor (getCellData hm (row_cells r) (js ''Subheading'')))"
    unfolding sub_from_rows_def by blast
  have final: "Subheading e = (if es = [] then SubNum 0 else SubObj es p)"
    using e sub by (simp add: cleanup_entity_Subheading)
  have "(Subheading e = SubNum 0 \<longleftrightarrow> es = []) \<and> (es \<noteq> [] \<longrightarrow> Subheading e = SubObj es p)
      \<and> (\<forall>p'. Subheading e \<noteq> SubObj [] p')"
    using final by simp
  with e0 sub e entries
  show "\<exists>e0 es p.
            map_of (own (data (process_rows hm rows initial_state))) k = Some e0
            \<and> Subheading e0 = SubObj es p
            \<and> e = cleanup_entity e0
            \<and> (Subheading e = SubNum 0 \<longleftrightarrow> es = [])
            \<and> (es \<noteq> [] \<longrightarrow> Subheading e = SubObj es p)
            \<and> (\<forall>p'. Subheading e \<noteq> SubObj [] p')
            \<and> (\<forall>(n, c) \<in> set es. n \<noteq> []
                  \<and> (\<exists>r \<in> set rows.
                        n = trim (cvalue (getCellData hm (row_cells r) (js ''Subheading'')))
                        \<and> c = ccolor (getCellData hm (row_cells r) (js ''Subheading''))))"
    by blast
next
  assume "currentServiceKey st = Some key \<and> key \<noteq> []
        \<and> get_entity (data st) key = Some e1 \<and> Subheading e1 = SubObj es1 p1
        \<and> trim (cvalue (getCellData hm' cells (js ''Subheading''))) \<noteq> []
        \<and> trim (cvalue (getCellData hm' cells (js ''Subheading''))) \<noteq> proto_key"
  then show "\<exists>e2 es2. get_entity (data (subheading_step hm' cells st)) key = Some e2
            \<and> Subheading e2 = SubObj es2 p1 \<and> es2 \<noteq> []
            \<and> map_of es2 (trim (cvalue (getCellData hm' cells (js ''Subheading''))))
                = Some (ccolor (getCellData hm' cells (js ''Subheading'')))"
    using subheading_step_attaches [of st key e1 es1 p1 hm' cells] by blast
qed

section \<open>Records come from named rows\<close>

lemma from_name_row_new:
  assumes "r \<in> set rows" and "k = trim (cvalue (getCellData hm (row_cells r) (js ''Service'')))"
    and "k \<noteq> []"
  shows "from_name_row hm rows k (new_entity hm (row_cells r))"
  unfolding from_name_row_def using assms by (auto simp add: new_entity_def)

lemma from_name_row_update:
  "from_name_row hm rows k e \<Longrightarrow> from_name_row hm rows k (e\<lparr>status_C := s\<rparr>)"
  "from_name_row hm rows k e \<Longrightarrow> from_name_row hm rows k (e\<lparr>status_E := s\<rparr>)"
  "from_name_row hm rows k e \<Longrightarrow> from_name_row hm rows k (e\<lparr>Subheading := sub\<rparr>)"
  by (simp_all add: from_name_row_def)

lemma loop_from_name_row:
  "all_entities (from_name_row hm rows) (data (process_rows hm rows initial_state))"
proof (rule process_rows_invariant)
  show "all_entities (from_name_row hm rows) (data initial_state)"
    by (rule all_entities_initial)
next
  fix s :: loop_state and r
  assume r: "r \<in> set rows" and inv: "all_entities (from_name_row hm rows) (data s)"
  have "all_entities (from_name_row hm rows) (data (name_step hm (row_cells r) s))"
    using inv
  proof (rule all_entities_name_step)
    fix k
    assume "k = trim (cvalue (getCellData hm (row_cells r) (js ''Service'')))" and "k \<noteq> []"
    with r show "from_name_row hm rows k (new_entity hm (row_cells r))"
      by (rule from_name_row_new)
  qed (simp_all add: from_name_row_def)
  then show "all_entities (from_name_row hm rows) (data (row_step hm s r))"
    unfolding row_step_def
    by (rule all_entities_subheading_step) (simp add: from_name_row_def)
qed

lemma output_entity_loop:
  assumes "find (\<lambda>s. title s = SHEET_NAME) (sheets g) = Some sh"
    and "sheet_data sh = Some (d # ds)" and "rowData d = Some (r0 # rows)"
    and "row_values r0 = Some hcells"
    and "parseSheetData g = Inr res" and "map_of res SHEET_NAME = Some out"
    and "map_of (own out) k = Some e"
  shows "\<exists>e0. map_of (own (data (process_rows
                (build_headerMap (map formattedValue hcells) 0 Map.empty) rows initial_state))) k
              = Some e0
            \<and> e = cleanup_entity e0"
proof -
  let ?loop = "data (process_rows
      (build_headerMap (map formattedValue hcells) 0 Map.empty) rows initial_state)"
  from assms(5,6) have "parse_rows (r0 # rows) = Inr out"
    by (auto simp add: parseSheetData_rows [OF assms(1-3)] split: sum.splits)
  then have clean: "cleanup ?loop = Inr out"
    by (simp add: parse_rows_header [OF assms(4)])
  from cleanup_own [OF clean, of k] assms(7)
  have "map_option cleanup_entity (map_of (own ?loop) k) = Some e"
    by simp
  then show ?thesis
    by auto
qed

lemma output_from_name_row:
  assumes "find (\<lambda>s. title s = SHEET_NAME) (sheets g) = Some sh"
    and "sheet_data sh = Some (d # ds)" and "rowData d = Some (r0 # rows)"
    and "row_values r0 = Some hcells"
    and "parseSheetData g = Inr res" and "map_of res SHEET_NAME = Some out"
    and "map_of (own out) k = Some e"
  shows "from_name_row (build_headerMap (map formattedValue hcells) 0 Map.empty) rows k e"
proof -
  from output_entity_loop [OF assms] obtain e0
    where e0: "map_of (own (data (process_rows
        (build_headerMap (map formattedValue hcells) 0 Map.empty) rows initial_state))) k = Some e0"
      and e: "e = cleanup_entity e0"
    by blast
  have "from_name_row (build_headerMap (map formattedValue hcells) 0 Map.empty) rows k e0"
    by (rule all_entities_own [OF loop_from_name_row e0])
  then show ?thesis
    unfolding e from_name_row_def cleanup_entity_fields .
qed

text \<open>What a row with a name leaves under its trimmed name.\<close>

lemma name_step_stores:
  assumes "trim (cvalue (getCellData hm cells (js ''Service''))) \<noteq> []"
  shows "currentServiceKey (name_step hm cells st)
           = Some (trim (cvalue (getCellData hm cells (js ''Service''))))
         \<and> get_entity (data (name_step hm cells st))
             (trim (cvalue (getCellData hm cells (js ''Service''))))
           = Some ((new_entity hm cells)
               \<lparr>status_C := status_of (getCellData hm cells (js ''Status C'')),
                status_E := status_of (getCellData hm cells (js ''Status E''))\<rparr>)"
proof -
  have nonempty: "cvalue (getCellData hm cells (js ''Service'')) \<noteq> []"
    using assms by (auto simp add: trim_def)
  have none: "status_C (new_entity hm cells) = None" "status_E (new_entity hm cells) = None"
    by (simp_all add: new_entity_def)
  show ?thesis
    using assms nonempty none
    by (simp add: name_step_def Let_def get_entity_modify get_entity_set status_of_def)
qed

lemma row_step_stores:
  assumes "trim (cvalue (getCellData hm (row_cells r) (js ''Service''))) \<noteq> []"
  shows "\<exists>e. get_entity (data (row_step hm st r))
               (trim (cvalue (getCellData hm (row_cells r) (js ''Service'')))) = Some e
           \<and> Compliant e
               = number_or_null (cvalue (getCellData hm (row_cells r) (js ''Compliant'')))
           \<and> Total e = cvalue (getCellData hm (row_cells r) (js ''Total''))
           \<and> Mising e = cvalue (getCellData hm (row_cells r) (js ''Mising''))
           \<and> pctCompliant e = cvalue (getCellData hm (row_cells r) (js ''% Compliant''))"
proof -
  let ?key = "trim (cvalue (getCellData hm (row_cells r) (js ''Service'')))"
  let ?st1 = "name_step hm (row_cells r) st"
  from name_step_stores [OF assms, of st]
  have cur: "currentServiceKey ?st1 = Some ?key"
    and e1: "get_entity (data ?st1) ?key
        = Some ((new_entity hm (row_cells r))
            \<lparr>status_C := status_of (getCellData hm (row_cells r) (js ''Status C'')),
             status_E := status_of (getCellData hm (row_cells r) (js ''Status E''))\<rparr>)"
    by simp_all
  have "\<exists>f. get_entity (data (subheading_step hm (row_cells r) ?st1)) ?key
      = Some ((new_entity hm (row_cells r))
            \<lparr>status_C := status_of (getCellData hm (row_cells r) (js ''Status C'')),
             status_E := status_of (getCellData hm (row_cells r) (js ''Status E'')),
             Subheading := f\<rparr>)"
    using cur e1 by (auto simp add: subheading_step_def Let_def get_entity_modify new_entity_def)
  then show ?thesis
    unfolding row_step_def by (auto simp add: new_entity_def)
qed

lemma map_entry_keys: "map fst (AList.map_entry k f xs) = map fst xs"
  by (induction xs) auto

lemma row_step_nameless_keys:
  assumes "trim (cvalue (getCellData hm (row_cells r) (js ''Service''))) = []"
  shows "map fst (own (data (row_step hm st r))) = map fst (own (data st))
         \<and> (proto (data (row_step hm st r)) = None \<longleftrightarrow> proto (data st) = None)
         \<and> currentServiceKey (row_step hm st r) = currentServiceKey st"
  using assms
  by (auto simp add: row_step_def name_step_nameless subheading_step_def Let_def
      modify_entity_def map_entry_keys split: option.splits)

lemma getCellData_verbatim:
  assumes "hm header = Some i" and "i < length cells" and "formattedValue (cells ! i) = Some v"
  shows "cvalue (getCellData hm cells header) = v"
  using assms by (simp add: getCellData_def)


section \<open>The open record exists\<close>

lemma subheading_step_current:
  "current_defined st \<Longrightarrow> current_defined (subheading_step hm cells st)"
  by (auto simp add: current_defined_def subheading_step_def Let_def get_entity_modify
      split: option.splits)

lemma name_step_current:
  assumes "current_defined st"
  shows "current_defined (name_step hm cells st)"
proof (cases "trim (cvalue (getCellData hm cells (js ''Service''))) = []")
  case True
  with assms show ?thesis
    by (simp add: name_step_nameless)
next
  case False
  with name_step_stores [OF False, of st] show ?thesis
    by (simp add: current_defined_def)
qed

lemma loop_current_defined: "current_defined (process_rows hm rows initial_state)"
proof (rule process_rows_invariant)
  show "current_defined initial_state"
    by (simp add: current_defined_def initial_state_def)
next
  fix s :: loop_state and r
  assume "current_defined s"
  then show "current_defined (row_step hm s r)"
    unfolding row_step_def by (intro subheading_step_current name_step_current)
qed


section \<open>The flat variant, row by row\<close>

lemma flat_step_skips:
  "nth_opt row 0 = None \<or> nth_opt row 0 = Some [] \<Longrightarrow> flat_step headers d row = d"
  by (auto simp add: flat_step_def)

lemma flat_step_stores:
  "nth_opt row 0 = Some s \<Longrightarrow> s \<noteq> [] \<Longrightarrow> s \<noteq> proto_key \<Longrightarrow>
   map_of (fown (flat_step headers d row)) s = Some (flat_record headers row)"
  by (simp add: flat_step_def update_conv')

lemma flat_record_fields:
  "map_of (flat_record headers row) (header_key headers 4) = Some (flat_text (nth_opt row 4))"
  "header_key headers 3 \<noteq> header_key headers 4 \<Longrightarrow>
   map_of (flat_record headers row) (header_key headers 3) = Some (flat_text (nth_opt row 3))"
  "header_key headers 2 \<noteq> header_key headers 3 \<Longrightarrow> header_key headers 2 \<noteq> header_key headers 4 \<Longrightarrow>
   map_of (flat_record headers row) (header_key headers 2) = Some (flat_field2 (nth_opt row 2))"
  "header_key headers 1 \<noteq> header_key headers 2 \<Longrightarrow> header_key headers 1 \<noteq> header_key headers 3 \<Longrightarrow>
   header_key headers 1 \<noteq> header_key headers 4 \<Longrightarrow>
   map_of (flat_record headers row) (header_key headers 1) = Some (flat_field1 (nth_opt row 1))"
  by (simp_all add: flat_record_def update_conv')

lemma flat_field1_cases:
  "flat_field1 (Some (js ''-'')) = JNull" "flat_field1 (Some (js ''null'')) = JNull"
  "flat_field1 (Some []) = JNum (Fin 0)" "flat_field1 None = JNum NaN"
  "w \<noteq> js ''-'' \<Longrightarrow> w \<noteq> js ''null'' \<Longrightarrow> flat_field1 (Some w) = JNum (Number w)"
  by (simp_all add: flat_field1_def Number_cell_def Number_literals js_simps)

lemma flat_field2_cases:
  "flat_field2 (Some (js ''-'')) = JNull"
  "w \<noteq> js ''-'' \<Longrightarrow> flat_field2 (Some w) = JNum (Number w)"
  by (simp_all add: flat_field2_def Number_cell_def)

lemma flat_text_cases:
  "flat_text (Some (js ''-'')) = JNull" "flat_text None = JUndefined"
  "w \<noteq> js ''-'' \<Longrightarrow> flat_text (Some w) = JStr w"
  by (simp_all add: flat_text_def js_simps)

lemmas flat_eval_defs = parseSheetData_flat_def sample_values_def SHEET_NAME_def js_simps
  flat_step_def flat_record_def header_key_def nth_opt_def flat_field1_def flat_field2_def
  flat_text_def Number_cell_def proto_key_def

lemma Number_not_available: "Number [110, 47, 97] = NaN"
  by (simp add: Number_def trim_def is_ws_def parse_unsigned_decimal_def js_simps is_digit_def)


section \<open>The fields of a flat record\<close>

lemma getCellData_absent:
  assumes "hm header = None
           \<or> (hm header = Some j \<and> (length cells \<le> j \<or> formattedValue (cells ! j) = None))"
  shows "cvalue (getCellData hm cells header) = []"
  using assms by (auto simp add: getCellData_def)

lemma distinct_header_keys:
  assumes "distinct [header_key headers 1, header_key headers 2, header_key headers 3,
                     header_key headers 4]"
  shows "header_key headers 1 \<noteq> header_key headers 2"
    and "header_key headers 1 \<noteq> header_key headers 3"
    and "header_key headers 1 \<noteq> header_key headers 4"
    and "header_key headers 2 \<noteq> header_key headers 3"
    and "header_key headers 2 \<noteq> header_key headers 4"
    and "header_key headers 3 \<noteq> header_key headers 4"
  using assms by simp_all

lemma flat_record_columns:
  assumes "distinct [header_key headers 1, header_key headers 2, header_key headers 3,
                     header_key headers 4]"
  shows "map_of (flat_record headers row) (header_key headers 1) = Some (flat_field1 (nth_opt row 1))"
    and "map_of (flat_record headers row) (header_key headers 2) = Some (flat_field2 (nth_opt row 2))"
    and "map_of (flat_record headers row) (header_key headers 3) = Some (flat_text (nth_opt row 3))"
    and "map_of (flat_record headers row) (header_key headers 4) = Some (flat_text (nth_opt row 4))"
proof -
  note ne = distinct_header_keys [OF assms]
  show "map_of (flat_record headers row) (header_key headers 1) = Some (flat_field1 (nth_opt row 1))"
    by (rule flat_record_fields(4) [OF ne(1) ne(2) ne(3)])
  show "map_of (flat_record headers row) (header_key headers 2) = Some (flat_field2 (nth_opt row 2))"
    by (rule flat_record_fields(3) [OF ne(4) ne(5)])
  show "map_of (flat_record headers row) (header_key headers 3) = Some (flat_text (nth_opt row 3))"
    by (rule flat_record_fields(2) [OF ne(6)])
  show "map_of (flat_record headers row) (header_key headers 4) = Some (flat_text (nth_opt row 4))"
    by (rule flat_record_fields(1))
qed

lemma flat_record_dash:
  assumes d: "distinct [header_key headers 1, header_key headers 2, header_key headers 3,
                        header_key headers 4]"
    and c: "c \<in> {1, 2, 3, 4}" and dash: "nth_opt row c = Some (js ''-'')"
  shows "map_of (flat_record headers row) (header_key headers c) = Some JNull"
proof -
  from c consider "c = 1" | "c = 2" | "c = 3" | "c = 4"
    by auto
  then show ?thesis
  proof cases
    case 1
    with dash have "flat_field1 (nth_opt row 1) = JNull"
      by (simp add: flat_field1_cases(1))
    with flat_record_columns(1) [OF d, of row] show ?thesis
      unfolding 1 by simp
  next
    case 2
    with dash have "flat_field2 (nth_opt row 2) = JNull"
      by (simp add: flat_field2_cases(1))
    with flat_record_columns(2) [OF d, of row] show ?thesis
      unfolding 2 by simp
  next
    case 3
    with dash have "flat_text (nth_opt row 3) = JNull"
      by (simp add: flat_text_cases(1))
    with flat_record_columns(3) [OF d, of row] show ?thesis
      unfolding 3 by simp
  next
    case 4
    with dash have "flat_text (nth_opt row 4) = JNull"
      by (simp add: flat_text_cases(1))
    with flat_record_columns(4) [OF d, of row] show ?thesis
      unfolding 4 by simp
  qed
qed

lemma flat_record_other:
  assumes d: "distinct [header_key headers 1, header_key headers 2, header_key headers 3,
                        header_key headers 4]"
  shows "nth_opt row 2 = Some w2 \<Longrightarrow> w2 \<noteq> js ''-'' \<Longrightarrow>
         map_of (flat_record headers row) (header_key headers 2) = Some (JNum (Number w2))"
    and "nth_opt row 3 = Some w3 \<Longrightarrow> w3 \<noteq> js ''-'' \<Longrightarrow>
         map_of (flat_record headers row) (header_key headers 3) = Some (JStr w3)"
    and "nth_opt row 4 = Some w4 \<Longrightarrow> w4 \<noteq> js ''-'' \<Longrightarrow>
         map_of (flat_record headers row) (header_key headers 4) = Some (JStr w4)"
  using flat_record_columns(2-4) [OF d, of row]
  by (simp_all add: flat_field2_cases(2) flat_text_cases(3))


section \<open>Null coercion of the compliant column: C1\<close>

text \<open>
  C1, as the code has it. In the grid variant the compliant field is \<open>Number(v) || null\<close>:
  a row with a name whose compliant cell reads \<open>-\<close>, \<open>null\<close>, the empty string or any
  other text that is not a number leaves a record whose \<open>Compliant\<close> is \<open>null\<close>, and no
  record of the output holds NaN. In the flat variant column 1 is \<open>null\<close> only for the
  exact texts \<open>-\<close> and \<open>null\<close>; any other text \<open>w\<close> gives \<open>Number(w)\<close>, which is 0 for
  the empty string and NaN for a text that is not a number, and an absent cell gives NaN.
\<close>

theorem compliant_null_coercion:
  "(trim (cvalue (getCellData hm (row_cells r) (js ''Service''))) \<noteq> []
      \<and> (cvalue (getCellData hm (row_cells r) (js ''Compliant'')) = js ''-''
          \<or> cvalue (getCellData hm (row_cells r) (js ''Compliant'')) = js ''null''
          \<or> cvalue (getCellData hm (row_cells r) (js ''Compliant'')) = []
          \<or> Number (cvalue (getCellData hm (row_cells r) (js ''Compliant''))) = NaN)
     \<longrightarrow> (\<exists>e. get_entity (data (row_step hm st r))
                 (trim (cvalue (getCellData hm (row_cells r) (js ''Service'')))) = Some e
              \<and> Compliant e = None))
   \<and> (parseSheetData g = Inr res \<and> map_of res SHEET_NAME = Some out
        \<and> map_of (own out) k = Some e'
     \<longrightarrow> Compliant e' \<noteq> Some NaN)
   \<and> Number (js ''-'') = NaN \<and> Number (js ''null'') = NaN \<and> Number [] = Fin 0
   \<and> (nth_opt row 0 = Some s \<and> s \<noteq> [] \<and> s \<noteq> proto_key
        \<and> header_key headers 1 \<noteq> header_key headers 2
        \<and> header_key headers 1 \<noteq> header_key headers 3
        \<and> header_key headers 1 \<noteq> header_key headers 4
     \<longrightarrow> (\<exists>fields. map_of (fown (flat_step headers fd row)) s = Some fields
              \<and> map_of fields (header_key headers 1) = Some (flat_field1 (nth_opt row 1))))
   \<and> flat_field1 (Some (js ''-'')) = JNull \<and> flat_field1 (Some (js ''null'')) = JNull
   \<and> flat_field1 (Some []) = JNum (Fin 0) \<and> flat_field1 None = JNum NaN
   \<and> (w \<noteq> js ''-'' \<and> w \<noteq> js ''null'' \<longrightarrow> flat_field1 (Some w) = JNum (Number w))"
proof -
  let ?v = "cvalue (getCellData hm (row_cells r) (js ''Compliant''))"
  have grid: "\<exists>e. get_entity (data (row_step hm st r))
                 (trim (cvalue (getCellData hm (row_cells r) (js ''Service'')))) = Some e
              \<and> Compliant e = None"
    if named: "trim (cvalue (getCellData hm (row_cells r) (js ''Service''))) \<noteq> []"
      and cell_text: "?v = js ''-'' \<or> ?v = js ''null'' \<or> ?v = [] \<or> Number ?v = NaN"
  proof -
    from cell_text have "Number ?v = NaN \<or> Number ?v = Fin 0 \<or> Number ?v = NegZero"
      using Number_literals by auto
    then have "number_or_null ?v = None"
      by (rule number_or_null_falsy)
    with row_step_stores [OF named, of st] show ?thesis
      by auto
  qed
  have out: "Compliant e' \<noteq> Some NaN"
    if "parseSheetData g = Inr res" "map_of res SHEET_NAME = Some out"
      "map_of (own out) k = Some e'"
    using output_compliant_ok [OF that] by (auto simp add: compliant_ok_def truthy_num_def)
  have flat: "\<exists>fields. map_of (fown (flat_step headers fd row)) s = Some fields
              \<and> map_of fields (header_key headers 1) = Some (flat_field1 (nth_opt row 1))"
    if "nth_opt row 0 = Some s" "s \<noteq> []" "s \<noteq> proto_key"
      "header_key headers 1 \<noteq> header_key headers 2"
      "header_key headers 1 \<noteq> header_key headers 3"
      "header_key headers 1 \<noteq> header_key headers 4"
    using flat_step_stores [OF that(1-3), where headers = headers and d = fd]
      flat_record_fields(4) [OF that(4-6), where row = row]
    by blast
  show ?thesis
    using grid out flat Number_literals flat_field1_cases(1-4) flat_field1_cases(5) [of w]
    by blast
qed

theorem compliant_null_coercion_witness:
  "(\<exists>e. get_entity (data (row_step
       (build_headerMap (map formattedValue (map text_cell
          [''Service'', ''Subheading'', ''Compliant'', ''Total'', ''Mising'', ''% Compliant'']))
          0 Map.empty)
       initial_state
       \<lparr>row_values = Some (map text_cell [''DB'', [], ''n/a'', ''-'', ''-'', ''-''])\<rparr>))
       (js ''DB'') = Some e
     \<and> Compliant e = None)
   \<and> Number (js ''n/a'') = NaN
   \<and> (\<exists>fields. map_of (fown (flat_step
          (map js [''Service'', ''Compliant'', ''Total'', ''Mising'', ''%Compliant''])
          \<lparr>fown = [], fproto = None\<rparr> (map js [''DB'', ''n/a'', ''-'', ''-'', ''-'']))) (js ''DB'')
        = Some fields
      \<and> map_of fields (js ''Compliant'') = Some (JNum NaN))"
proof -
  let ?hm = "build_headerMap (map formattedValue (map text_cell
      [''Service'', ''Subheading'', ''Compliant'', ''Total'', ''Mising'', ''% Compliant'']))
      0 Map.empty"
  let ?r = "\<lparr>row_values = Some (map text_cell [''DB'', [], ''n/a'', ''-'', ''-'', ''-''])\<rparr>"
  let ?headers = "map js [''Service'', ''Compliant'', ''Total'', ''Mising'', ''%Compliant'']"
  let ?row = "map js [''DB'', ''n/a'', ''-'', ''-'', ''-'']"
  have nan: "Number (js ''n/a'') = NaN"
    using Number_not_available by (simp add: js_simps)
  have name: "trim (cvalue (getCellData ?hm (row_cells ?r) (js ''Service''))) = js ''DB''"
    by (simp add: eval_defs)
  have cell_text: "cvalue (getCellData ?hm (row_cells ?r) (js ''Compliant'')) = js ''n/a''"
    by (simp add: eval_defs)
  have keys: "header_key ?headers 1 = js ''Compliant''"
    "header_key ?headers 1 \<noteq> header_key ?headers 2"
    "header_key ?headers 1 \<noteq> header_key ?headers 3"
    "header_key ?headers 1 \<noteq> header_key ?headers 4"
    "nth_opt ?row 0 = Some (js ''DB'')" "nth_opt ?row 1 = Some (js ''n/a'')"
    "js ''DB'' \<noteq> []" "js ''DB'' \<noteq> proto_key" "js ''n/a'' \<noteq> js ''-''"
    "js ''n/a'' \<noteq> js ''null''"
    by (simp_all add: header_key_def nth_opt_def js_simps proto_key_def)
  note th = compliant_null_coercion [where hm = ?hm and r = ?r and st = initial_state
      and row = ?row and headers = ?headers and s = "js ''DB''" and w = "js ''n/a''"
      and fd = "\<lparr>fown = [], fproto = None\<rparr>" and g = "\<lparr>sheets = []\<rparr>" and res = "[]"
      and out = "\<lparr>own = [], proto = None\<rparr>" and k = "[]"
      and e' = "new_entity Map.empty []"]
  have a: "\<exists>e. get_entity (data (row_step ?hm initial_state ?r))
        (trim (cvalue (getCellData ?hm (row_cells ?r) (js ''Service'')))) = Some e
      \<and> Compliant e = None"
  proof (rule th [THEN conjunct1, THEN mp], unfold name cell_text)
    show "js ''DB'' \<noteq> []
        \<and> (js ''n/a'' = js ''-'' \<or> js ''n/a'' = js ''null'' \<or> js ''n/a'' = []
            \<or> Number (js ''n/a'') = NaN)"
      using nan keys(7) by blast
  qed
  have b: "\<exists>fields. map_of (fown (flat_step ?headers \<lparr>fown = [], fproto = None\<rparr> ?row)) (js ''DB'')
        = Some fields
      \<and> map_of fields (header_key ?headers 1) = Some (flat_field1 (nth_opt ?row 1))"
  proof (rule th [THEN conjunct2, THEN conjunct2, THEN conjunct2, THEN conjunct2,
        THEN conjunct2, THEN conjunct1, THEN mp])
    show "nth_opt ?row 0 = Some (js ''DB'') \<and> js ''DB'' \<noteq> [] \<and> js ''DB'' \<noteq> proto_key
        \<and> header_key ?headers 1 \<noteq> header_key ?headers 2
        \<and> header_key ?headers 1 \<noteq> header_key ?headers 3
        \<and> header_key ?headers 1 \<noteq> header_key ?headers 4"
      using keys by blast
  qed
  have c: "flat_field1 (nth_opt ?row 1) = JNum NaN"
    unfolding keys(6) using flat_field1_cases(5) [OF keys(9,10)] nan by simp
  show ?thesis
    using a b nan unfolding name keys(1) c by blast
qed

text \<open>
  C1 as first stated fails in the flat variant: an empty compliant cell gives the number 0
  and the text \<open>n/a\<close> gives NaN, where the statement promises \<open>null\<close>.
\<close>

theorem flat_compliant_not_null_counterexample:
  "parseSheetData_flat (sample_values
       [[''API'', [], ''-'', ''-'', ''-''], [''DB'', ''n/a'', ''-'', ''-'', ''-'']])
   = Inr [(js ''Sheet1'',
       \<lparr>fown =
          [(js ''API'', [(js ''Compliant'', JNum (Fin 0)), (js ''Total'', JNull),
                         (js ''Mising'', JNull), (js ''%Compliant'', JNull)]),
           (js ''DB'', [(js ''Compliant'', JNum NaN), (js ''Total'', JNull),
                        (js ''Mising'', JNull), (js ''%Compliant'', JNull)])],
        fproto = None\<rparr>)]"
  by (simp add: flat_eval_defs Number_literals Number_not_available)


section \<open>Text fields: C2\<close>

text \<open>
  C2, as the code has it. In the grid variant a row with a name leaves a record whose
  \<open>Total\<close>, \<open>Mising\<close> and \<open>%Compliant\<close> are the texts of the row's cells under the headers
  \<open>Total\<close>, \<open>Mising\<close> and \<open>% Compliant\<close>, unchanged (a literal \<open>-\<close> stays \<open>-\<close>) and empty
  when the column or the cell is absent, and every record of the output carries the three
  texts of a named row. In the flat variant a row with a name is stored as a record with
  one field per header of columns 1 to 4; when these four headers differ, the text \<open>-\<close>
  becomes \<open>null\<close> in each of the four columns, column 2 converts any other text with
  \<open>Number\<close>, and columns 3 and 4 pass any other text through.
\<close>

theorem text_fields_verbatim:
  "(trim (cvalue (getCellData hm (row_cells r) (js ''Service''))) \<noteq> []
     \<longrightarrow> (\<exists>e. get_entity (data (row_step hm st r))
                 (trim (cvalue (getCellData hm (row_cells r) (js ''Service'')))) = Some e
              \<and> Total e = cvalue (getCellData hm (row_cells r) (js ''Total''))
              \<and> Mising e = cvalue (getCellData hm (row_cells r) (js ''Mising''))
              \<and> pctCompliant e = cvalue (getCellData hm (row_cells r) (js ''% Compliant''))))
   \<and> (hm header = Some i \<and> i < length cells \<and> formattedValue (cells ! i) = Some v
     \<longrightarrow> cvalue (getCellData hm cells header) = v)
   \<and> (hm header' = None
        \<or> (hm header' = Some j \<and> (length cells \<le> j \<or> formattedValue (cells ! j) = None))
     \<longrightarrow> cvalue (getCellData hm cells header') = [])
   \<and> (find (\<lambda>s. title s = SHEET_NAME) (sheets g) = Some sh \<and> sheet_data sh = Some (d # ds)
        \<and> rowData d = Some (r0 # rows) \<and> row_values r0 = Some hcells
        \<and> parseSheetData g = Inr res \<and> map_of res SHEET_NAME = Some out
        \<and> map_of (own out) k = Some e'
     \<longrightarrow> (\<exists>r' \<in> set rows.
            k = trim (cvalue (getCellData (build_headerMap (map formattedValue hcells) 0 Map.empty)
                  (row_cells r') (js ''Service'')))
            \<and> Total e' = cvalue (getCellData (build_headerMap (map formattedValue hcells) 0 Map.empty)
                  (row_cells r') (js ''Total''))
            \<and> Mising e' = cvalue (getCellData (build_headerMap (map formattedValue hcells) 0 Map.empty)
                  (row_cells r') (js ''Mising''))
            \<and> pctCompliant e'
                = cvalue (getCellData (build_headerMap (map formattedValue hcells) 0 Map.empty)
                  (row_cells r') (js ''% Compliant''))))
   \<and> (nth_opt row 0 = Some s \<and> s \<noteq> [] \<and> s \<noteq> proto_key
     \<longrightarrow> map_of (fown (flat_step headers fd row)) s = Some (flat_record headers row))
   \<and> (distinct [header_key headers 1, header_key headers 2, header_key headers 3,
                 header_key headers 4]
        \<and> c \<in> {1, 2, 3, 4} \<and> nth_opt row c = Some (js ''-'')
     \<longrightarrow> map_of (flat_record headers row) (header_key headers c) = Some JNull)
   \<and> (distinct [header_key headers 1, header_key headers 2, header_key headers 3,
                 header_key headers 4]
        \<and> nth_opt row 2 = Some w2 \<and> w2 \<noteq> js ''-''
     \<longrightarrow> map_of (flat_record headers row) (header_key headers 2) = Some (JNum (Number w2)))
   \<and> (distinct [header_key headers 1, header_key headers 2, header_key headers 3,
                 header_key headers 4]
        \<and> nth_opt row 3 = Some w3 \<and> w3 \<noteq> js ''-''
     \<longrightarrow> map_of (flat_record headers row) (header_key headers 3) = Some (JStr w3))
   \<and> (distinct [header_key headers 1, header_key headers 2, header_key headers 3,
                 header_key headers 4]
        \<and> nth_opt row 4 = Some w4 \<and> w4 \<noteq> js ''-''
     \<longrightarrow> map_of (flat_record headers row) (header_key headers 4) = Some (JStr w4))"
proof -
  have step: "\<exists>e. get_entity (data (row_step hm st r))
                 (trim (cvalue (getCellData hm (row_cells r) (js ''Service'')))) = Some e
              \<and> Total e = cvalue (getCellData hm (row_cells r) (js ''Total''))
              \<and> Mising e = cvalue (getCellData hm (row_cells r) (js ''Mising''))
              \<and> pctCompliant e = cvalue (getCellData hm (row_cells r) (js ''% Compliant''))"
    if "trim (cvalue (getCellData hm (row_cells r) (js ''Service''))) \<noteq> []"
    using row_step_stores [OF that, of st] by blast
  have verbatim: "cvalue (getCellData hm cells header) = v"
    if "hm header = Some i" "i < length cells" "formattedValue (cells ! i) = Some v"
    using that by (rule getCellData_verbatim)
  have absent: "cvalue (getCellData hm cells header') = []"
    if "hm header' = None
        \<or> (hm header' = Some j \<and> (length cells \<le> j \<or> formattedValue (cells ! j) = None))"
    using that by (rule getCellData_absent)
  have out: "\<exists>r' \<in> set rows.
            k = trim (cvalue (getCellData (build_headerMap (map formattedValue hcells) 0 Map.empty)
                  (row_cells r') (js ''Service'')))
            \<and> Total e' = cvalue (getCellData (build_headerMap (map formattedValue hcells) 0 Map.empty)
                  (row_cells r') (js ''Total''))
            \<and> Mising e' = cvalue (getCellData (build_headerMap (map formattedValue hcells) 0 Map.empty)
                  (row_cells r') (js ''Mising''))
            \<and> pctCompliant e'
                = cvalue (getCellData (build_headerMap (map formattedValue hcells) 0 Map.empty)
                  (row_cells r') (js ''% Compliant''))"
    if "find (\<lambda>s. title s = SHEET_NAME) (sheets g) = Some sh" "sheet_data sh = Some (d # ds)"
      "rowData d = Some (r0 # rows)" "row_values r0 = Some hcells"
      "parseSheetData g = Inr res" "map_of res SHEET_NAME = Some out"
      "map_of (own out) k = Some e'"
    using output_from_name_row [OF that] unfolding from_name_row_def by blast
  have store: "map_of (fown (flat_step headers fd row)) s = Some (flat_record headers row)"
    if "nth_opt row 0 = Some s" "s \<noteq> []" "s \<noteq> proto_key"
    using that by (rule flat_step_stores)
  have dash: "map_of (flat_record headers row) (header_key headers c) = Some JNull"
    if "distinct [header_key headers 1, header_key headers 2, header_key headers 3,
                  header_key headers 4]"
      "c \<in> {1, 2, 3, 4}" "nth_opt row c = Some (js ''-'')"
    using that by (rule flat_record_dash)
  have col2: "map_of (flat_record headers row) (header_key headers 2) = Some (JNum (Number w2))"
    if "distinct [header_key headers 1, header_key headers 2, header_key headers 3,
                  header_key headers 4]"
      "nth_opt row 2 = Some w2" "w2 \<noteq> js ''-''"
    using that by (rule flat_record_other(1))
  have col3: "map_of (flat_record headers row) (header_key headers 3) = Some (JStr w3)"
    if "distinct [header_key headers 1, header_key headers 2, header_key headers 3,
                  header_key headers 4]"
      "nth_opt row 3 = Some w3" "w3 \<noteq> js ''-''"
    using that by (rule flat_record_other(2))
  have col4: "map_of (flat_record headers row) (header_key headers 4) = Some (JStr w4)"
    if "distinct [header_key headers 1, header_key headers 2, header_key headers 3,
                  header_key headers 4]"
      "nth_opt row 4 = Some w4" "w4 \<noteq> js ''-''"
    using that by (rule flat_record_other(3))
  show ?thesis
    using step verbatim absent out store dash col2 col3 col4 by blast
qed


theorem text_fields_verbatim_witness:
  "(\<exists>e. get_entity (data (row_step
       (build_headerMap (map formattedValue (map text_cell
          [''Service'', ''Subheading'', ''Compliant'', ''Total'', ''Mising'', ''% Compliant'']))
          0 Map.empty)
       initial_state
       \<lparr>row_values = Some (map text_cell [''DB'', [], ''-'', ''-'', ''5'', ''95%''])\<rparr>))
       (js ''DB'') = Some e
     \<and> Total e = js ''-'' \<and> Mising e = js ''5'' \<and> pctCompliant e = js ''95%'')
   \<and> cvalue (getCellData
         (build_headerMap (map formattedValue (map text_cell
            [''Service'', ''Subheading'', ''Compliant'', ''Total'', ''Mising'', ''% Compliant'']))
            0 Map.empty)
         (row_cells \<lparr>row_values = Some (map text_cell [''DB'', [], ''-'', ''-'', ''5'', ''95%''])\<rparr>)
         (js ''Status C'')) = []
   \<and> (\<exists>r' \<in> set sample_rows.
         js ''API'' = trim (cvalue (getCellData
             (build_headerMap (map formattedValue (map text_cell
               [''Service'', ''Subheading'', ''Compliant'', ''Total'', ''Mising'', ''% Compliant'']))
               0 Map.empty) (row_cells r') (js ''Service'')))
         \<and> js ''100'' = cvalue (getCellData
             (build_headerMap (map formattedValue (map text_cell
               [''Service'', ''Subheading'', ''Compliant'', ''Total'', ''Mising'', ''% Compliant'']))
               0 Map.empty) (row_cells r') (js ''Total'')))
   \<and> map_of (fown (flat_step
          (map js [''Service'', ''Compliant'', ''Total'', ''Mising'', ''%Compliant''])
          \<lparr>fown = [], fproto = None\<rparr> (map js [''API'', ''-'', ''42'', ''-'', ''95%'']))) (js ''API'')
       = Some (flat_record (map js [''Service'', ''Compliant'', ''Total'', ''Mising'', ''%Compliant''])
           (map js [''API'', ''-'', ''42'', ''-'', ''95%'']))
   \<and> map_of (flat_record (map js [''Service'', ''Compliant'', ''Total'', ''Mising'', ''%Compliant''])
           (map js [''API'', ''-'', ''42'', ''-'', ''95%''])) (js ''Mising'') = Some JNull
   \<and> map_of (flat_record (map js [''Service'', ''Compliant'', ''Total'', ''Mising'', ''%Compliant''])
           (map js [''API'', ''-'', ''42'', ''-'', ''95%''])) (js ''Total'')
       = Some (JNum (Number (js ''42'')))
   \<and> map_of (flat_record (map js [''Service'', ''Compliant'', ''Total'', ''Mising'', ''%Compliant''])
           (map js [''DB'', ''7'', ''-'', ''5'', ''-''])) (js ''Mising'') = Some (JStr (js ''5''))
   \<and> map_of (flat_record (map js [''Service'', ''Compliant'', ''Total'', ''Mising'', ''%Compliant''])
           (map js [''API'', ''-'', ''42'', ''-'', ''95%''])) (js ''%Compliant'')
       = Some (JStr (js ''95%''))"
proof -
  let ?hcells = "map text_cell
      [''Service'', ''Subheading'', ''Compliant'', ''Total'', ''Mising'', ''% Compliant'']"
  let ?hm = "build_headerMap (map formattedValue ?hcells) 0 Map.empty"
  let ?r = "\<lparr>row_values = Some (map text_cell [''DB'', [], ''-'', ''-'', ''5'', ''95%''])\<rparr>"
  let ?headers = "map js [''Service'', ''Compliant'', ''Total'', ''Mising'', ''%Compliant'']"
  let ?rowA = "map js [''API'', ''-'', ''42'', ''-'', ''95%'']"
  let ?rowB = "map js [''DB'', ''7'', ''-'', ''5'', ''-'']"
  let ?api = "\<lparr>Subheading = SubObj [(js ''Latency'', js ''Gray'')] None, Compliant = Some (Fin 42),
             Total = js ''100'', Mising = js ''5'', pctCompliant = js ''95%'',
             status_C = None, status_E = None\<rparr>"
  let ?db = "\<lparr>Subheading = SubNum 0, Compliant = None,
             Total = js ''-'', Mising = js ''-'', pctCompliant = js ''-'',
             status_C = None, status_E = None\<rparr>"
  let ?out = "\<lparr>own = [(js ''API'', ?api), (js ''DB'', ?db)], proto = None\<rparr>"
  have cellsv: "trim (cvalue (getCellData ?hm (row_cells ?r) (js ''Service''))) = js ''DB''"
    "cvalue (getCellData ?hm (row_cells ?r) (js ''Total'')) = js ''-''"
    "cvalue (getCellData ?hm (row_cells ?r) (js ''Mising'')) = js ''5''"
    "cvalue (getCellData ?hm (row_cells ?r) (js ''% Compliant'')) = js ''95%''"
    by (simp_all add: eval_defs)
  have index: "?hm (js ''Total'') = Some 3 \<and> 3 < length (row_cells ?r)
      \<and> formattedValue (row_cells ?r ! 3) = Some (js ''-'')"
    by (simp add: eval_defs)
  have nocolumn: "?hm (js ''Status C'') = None
      \<or> (?hm (js ''Status C'') = Some 0
          \<and> (length (row_cells ?r) \<le> 0 \<or> formattedValue (row_cells ?r ! 0) = None))"
    by (simp add: eval_defs)
  have dist: "distinct [header_key ?headers 1, header_key ?headers 2, header_key ?headers 3,
      header_key ?headers 4]"
    by (simp add: header_key_def nth_opt_def js_simps)
  have vals: "header_key ?headers 2 = js ''Total''" "header_key ?headers 3 = js ''Mising''"
    "header_key ?headers 4 = js ''%Compliant''"
    by (simp_all add: header_key_def nth_opt_def)
  have rowA: "nth_opt ?rowA 0 = Some (js ''API'') \<and> js ''API'' \<noteq> [] \<and> js ''API'' \<noteq> proto_key"
    "(3 :: nat) \<in> {1, 2, 3, 4} \<and> nth_opt ?rowA 3 = Some (js ''-'')"
    "nth_opt ?rowA 2 = Some (js ''42'') \<and> js ''42'' \<noteq> js ''-''"
    "nth_opt ?rowA 4 = Some (js ''95%'') \<and> js ''95%'' \<noteq> js ''-''"
    by (simp_all add: nth_opt_def js_simps proto_key_def)
  have rowB: "nth_opt ?rowB 3 = Some (js ''5'') \<and> js ''5'' \<noteq> js ''-''"
    by (simp add: nth_opt_def js_simps)
  note th = text_fields_verbatim [where hm = ?hm and r = ?r and st = initial_state
      and header = "js ''Total''" and i = 3 and cells = "row_cells ?r" and v = "js ''-''"
      and header' = "js ''Status C''" and j = 0
      and g = "sample_grid sample_rows"
      and sh = "\<lparr>title = js ''Sheet1'',
                 sheet_data = Some [\<lparr>rowData = Some (sample_header # sample_rows)\<rparr>]\<rparr>"
      and d = "\<lparr>rowData = Some (sample_header # sample_rows)\<rparr>" and ds = "[]"
      and ?r0.0 = sample_header and rows = sample_rows and hcells = ?hcells
      and res = "[(js ''Sheet1'', ?out)]" and out = ?out and k = "js ''API''" and e' = ?api
      and row = ?rowA and s = "js ''API''" and headers = ?headers
      and fd = "\<lparr>fown = [], fproto = None\<rparr>" and c = 3
      and ?w2.0 = "js ''42''" and ?w3.0 = "js ''5''" and ?w4.0 = "js ''95%''"]
  note thB = text_fields_verbatim [where hm = ?hm and r = ?r and st = initial_state
      and header = "js ''Total''" and i = 3 and cells = "row_cells ?r" and v = "js ''-''"
      and header' = "js ''Status C''" and j = 0
      and g = "sample_grid sample_rows"
      and sh = "\<lparr>title = js ''Sheet1'',
                 sheet_data = Some [\<lparr>rowData = Some (sample_header # sample_rows)\<rparr>]\<rparr>"
      and d = "\<lparr>rowData = Some (sample_header # sample_rows)\<rparr>" and ds = "[]"
      and ?r0.0 = sample_header and rows = sample_rows and hcells = ?hcells
      and res = "[(js ''Sheet1'', ?out)]" and out = ?out and k = "js ''API''" and e' = ?api
      and row = ?rowB and s = "js ''DB''" and headers = ?headers
      and fd = "\<lparr>fown = [], fproto = None\<rparr>" and c = 3
      and ?w2.0 = "js ''42''" and ?w3.0 = "js ''5''" and ?w4.0 = "js ''95%''"]
  have a: "\<exists>e. get_entity (data (row_step ?hm initial_state ?r))
        (trim (cvalue (getCellData ?hm (row_cells ?r) (js ''Service'')))) = Some e
      \<and> Total e = cvalue (getCellData ?hm (row_cells ?r) (js ''Total''))
      \<and> Mising e = cvalue (getCellData ?hm (row_cells ?r) (js ''Mising''))
      \<and> pctCompliant e = cvalue (getCellData ?hm (row_cells ?r) (js ''% Compliant''))"
  proof (rule th [THEN conjunct1, THEN mp], unfold cellsv)
    show "js ''DB'' \<noteq> []"
      by (simp add: js_simps)
  qed
  have b: "cvalue (getCellData ?hm (row_cells ?r) (js ''Total'')) = js ''-''"
    by (rule th [THEN conjunct2, THEN conjunct1, THEN mp]) (rule index)
  have b': "cvalue (getCellData ?hm (row_cells ?r) (js ''Status C'')) = []"
    by (rule th [THEN conjunct2, THEN conjunct2, THEN conjunct1, THEN mp]) (rule nocolumn)
  have origin: "find (\<lambda>s. title s = SHEET_NAME) (sheets (sample_grid sample_rows))
        = Some \<lparr>title = js ''Sheet1'',
                 sheet_data = Some [\<lparr>rowData = Some (sample_header # sample_rows)\<rparr>]\<rparr>
      \<and> sheet_data \<lparr>title = js ''Sheet1'',
                 sheet_data = Some [\<lparr>rowData = Some (sample_header # sample_rows)\<rparr>]\<rparr>
        = Some [\<lparr>rowData = Some (sample_header # sample_rows)\<rparr>]
      \<and> rowData \<lparr>rowData = Some (sample_header # sample_rows)\<rparr>
        = Some (sample_header # sample_rows)
      \<and> row_values sample_header = Some ?hcells
      \<and> parseSheetData (sample_grid sample_rows) = Inr [(js ''Sheet1'', ?out)]
      \<and> map_of [(js ''Sheet1'', ?out)] SHEET_NAME = Some ?out
      \<and> map_of (own ?out) (js ''API'') = Some ?api"
    using sample_grid_found [of sample_rows] sample_rows_parsed
    by (simp add: sample_header_def SHEET_NAME_def)
  have tot: "Total ?api = js ''100''"
    by simp
  have c: "\<exists>r' \<in> set sample_rows.
      js ''API'' = trim (cvalue (getCellData ?hm (row_cells r') (js ''Service'')))
      \<and> js ''100'' = cvalue (getCellData ?hm (row_cells r') (js ''Total''))"
    using th [THEN conjunct2, THEN conjunct2, THEN conjunct2, THEN conjunct1, THEN mp, OF origin]
    unfolding tot by blast
  note flat = th [THEN conjunct2, THEN conjunct2, THEN conjunct2, THEN conjunct2]
  note flatB = thB [THEN conjunct2, THEN conjunct2, THEN conjunct2, THEN conjunct2]
  have f0: "map_of (fown (flat_step ?headers \<lparr>fown = [], fproto = None\<rparr> ?rowA)) (js ''API'')
      = Some (flat_record ?headers ?rowA)"
    by (rule flat [THEN conjunct1, THEN mp]) (rule rowA(1))
  have f1: "map_of (flat_record ?headers ?rowA) (header_key ?headers 3) = Some JNull"
    by (rule flat [THEN conjunct2, THEN conjunct1, THEN mp]) (use dist rowA(2) in blast)
  have f2: "map_of (flat_record ?headers ?rowA) (header_key ?headers 2)
      = Some (JNum (Number (js ''42'')))"
    by (rule flat [THEN conjunct2, THEN conjunct2, THEN conjunct1, THEN mp])
      (use dist rowA(3) in blast)
  have f3: "map_of (flat_record ?headers ?rowB) (header_key ?headers 3) = Some (JStr (js ''5''))"
    by (rule flatB [THEN conjunct2, THEN conjunct2, THEN conjunct2, THEN conjunct1, THEN mp])
      (use dist rowB in blast)
  have f4: "map_of (flat_record ?headers ?rowA) (header_key ?headers 4)
      = Some (JStr (js ''95%''))"
    by (rule flat [THEN conjunct2, THEN conjunct2, THEN conjunct2, THEN conjunct2, THEN mp])
      (use dist rowA(4) in blast)
  show ?thesis
    using a [unfolded cellsv] b' c f0 f1 [unfolded vals] f2 [unfolded vals] f3 [unfolded vals]
      f4 [unfolded vals]
    by blast
qed

text \<open>
  C2 as first stated fails in the flat variant: a literal \<open>-\<close> in the total, missing and
  compliant columns is stored as \<open>null\<close>, not as the text.
\<close>

theorem flat_dash_is_null_counterexample:
  "parseSheetData_flat (sample_values [[''API'', ''-'', ''-'', ''-'', ''95%'']])
   = Inr [(js ''Sheet1'',
       \<lparr>fown =
          [(js ''API'', [(js ''Compliant'', JNull), (js ''Total'', JNull),
                         (js ''Mising'', JNull), (js ''%Compliant'', JStr (js ''95%''))])],
        fproto = None\<rparr>)]"
  by (simp add: flat_eval_defs)


section \<open>Rows without a name: C3\<close>

text \<open>
  C3, as the code has it. In the grid variant a row whose name cell is empty after trimming
  (absent, empty or only white space) leaves the keys of \<open>data\<close> and the open record as
  they were, whatever its other cells hold, and every key of the output is the trimmed,
  non-empty name of a data row. In the flat variant a row whose name cell is absent or the
  empty string changes nothing; the name is not trimmed, so any other name, white space
  included, becomes a key.
\<close>

theorem nameless_row_creates_no_record:
  "(trim (cvalue (getCellData hm (row_cells r) (js ''Service''))) = []
     \<longrightarrow> name_step hm (row_cells r) st = st
         \<and> map fst (own (data (row_step hm st r))) = map fst (own (data st))
         \<and> (proto (data (row_step hm st r)) = None \<longleftrightarrow> proto (data st) = None)
         \<and> currentServiceKey (row_step hm st r) = currentServiceKey st)
   \<and> (find (\<lambda>s. title s = SHEET_NAME) (sheets g) = Some sh \<and> sheet_data sh = Some (d # ds)
        \<and> rowData d = Some (r0 # rows) \<and> row_values r0 = Some hcells
        \<and> parseSheetData g = Inr res \<and> map_of res SHEET_NAME = Some out
        \<and> map_of (own out) k = Some e
     \<longrightarrow> k \<noteq> []
         \<and> (\<exists>r' \<in> set rows.
              k = trim (cvalue (getCellData (build_headerMap (map formattedValue hcells) 0 Map.empty)
                    (row_cells r') (js ''Service'')))))
   \<and> (nth_opt row 0 = None \<or> nth_opt row 0 = Some [] \<longrightarrow> flat_step headers fd row = fd)
   \<and> (nth_opt row' 0 = Some s \<and> s \<noteq> [] \<and> s \<noteq> proto_key
     \<longrightarrow> map_of (fown (flat_step headers fd row')) s = Some (flat_record headers row'))"
proof -
  have step: "name_step hm (row_cells r) st = st
         \<and> map fst (own (data (row_step hm st r))) = map fst (own (data st))
         \<and> (proto (data (row_step hm st r)) = None \<longleftrightarrow> proto (data st) = None)
         \<and> currentServiceKey (row_step hm st r) = currentServiceKey st"
    if "trim (cvalue (getCellData hm (row_cells r) (js ''Service''))) = []"
    using name_step_nameless [OF that] row_step_nameless_keys [OF that] by simp
  have out: "k \<noteq> []
         \<and> (\<exists>r' \<in> set rows.
              k = trim (cvalue (getCellData (build_headerMap (map formattedValue hcells) 0 Map.empty)
                    (row_cells r') (js ''Service''))))"
    if "find (\<lambda>s. title s = SHEET_NAME) (sheets g) = Some sh" "sheet_data sh = Some (d # ds)"
      "rowData d = Some (r0 # rows)" "row_values r0 = Some hcells"
      "parseSheetData g = Inr res" "map_of res SHEET_NAME = Some out"
      "map_of (own out) k = Some e"
    using output_from_name_row [OF that] unfolding from_name_row_def by blast
  have skip: "flat_step headers fd row = fd"
    if "nth_opt row 0 = None \<or> nth_opt row 0 = Some []"
    using that by (rule flat_step_skips)
  have store: "map_of (fown (flat_step headers fd row')) s = Some (flat_record headers row')"
    if "nth_opt row' 0 = Some s" "s \<noteq> []" "s \<noteq> proto_key"
    using that by (rule flat_step_stores)
  show ?thesis
    using step out skip store by blast
qed


theorem nameless_row_creates_no_record_witness:
  "map fst (own (data (row_step
       (build_headerMap (map formattedValue (map text_cell
          [''Service'', ''Subheading'', ''Compliant'', ''Total'', ''Mising'', ''% Compliant'']))
          0 Map.empty)
       (process_rows
         (build_headerMap (map formattedValue (map text_cell
            [''Service'', ''Subheading'', ''Compliant'', ''Total'', ''Mising'', ''% Compliant'']))
            0 Map.empty)
         sample_rows initial_state)
       \<lparr>row_values = Some (map text_cell [''  '', ''Errors'', ''7'', ''8'', ''9'', ''10%''])\<rparr>)))
     = map fst (own (data (process_rows
         (build_headerMap (map formattedValue (map text_cell
            [''Service'', ''Subheading'', ''Compliant'', ''Total'', ''Mising'', ''% Compliant'']))
            0 Map.empty)
         sample_rows initial_state)))
   \<and> js ''DB'' \<noteq> []
   \<and> (\<exists>r' \<in> set sample_rows.
         js ''DB'' = trim (cvalue (getCellData
             (build_headerMap (map formattedValue (map text_cell
               [''Service'', ''Subheading'', ''Compliant'', ''Total'', ''Mising'', ''% Compliant'']))
               0 Map.empty) (row_cells r') (js ''Service''))))
   \<and> flat_step (map js [''Service'', ''Compliant'', ''Total'', ''Mising'', ''%Compliant''])
         \<lparr>fown = [], fproto = None\<rparr> [] = \<lparr>fown = [], fproto = None\<rparr>
   \<and> map_of (fown (flat_step (map js [''Service'', ''Compliant'', ''Total'', ''Mising'', ''%Compliant''])
         \<lparr>fown = [], fproto = None\<rparr> (map js [''  '', ''-'', ''-'', ''-'', ''-'']))) (js ''  '')
     = Some (flat_record (map js [''Service'', ''Compliant'', ''Total'', ''Mising'', ''%Compliant''])
         (map js [''  '', ''-'', ''-'', ''-'', ''-'']))"
proof -
  let ?hcells = "map text_cell
      [''Service'', ''Subheading'', ''Compliant'', ''Total'', ''Mising'', ''% Compliant'']"
  let ?hm = "build_headerMap (map formattedValue ?hcells) 0 Map.empty"
  let ?r = "\<lparr>row_values = Some (map text_cell [''  '', ''Errors'', ''7'', ''8'', ''9'', ''10%''])\<rparr>"
  let ?st = "process_rows ?hm sample_rows initial_state"
  let ?headers = "map js [''Service'', ''Compliant'', ''Total'', ''Mising'', ''%Compliant'']"
  let ?row = "map js [''  '', ''-'', ''-'', ''-'', ''-'']"
  let ?api = "\<lparr>Subheading = SubObj [(js ''Latency'', js ''Gray'')] None, Compliant = Some (Fin 42),
             Total = js ''100'', Mising = js ''5'', pctCompliant = js ''95%'',
             status_C = None, status_E = None\<rparr>"
  let ?db = "\<lparr>Subheading = SubNum 0, Compliant = None,
             Total = js ''-'', Mising = js ''-'', pctCompliant = js ''-'',
             status_C = None, status_E = None\<rparr>"
  let ?out = "\<lparr>own = [(js ''API'', ?api), (js ''DB'', ?db)], proto = None\<rparr>"
  have blank: "trim (cvalue (getCellData ?hm (row_cells ?r) (js ''Service''))) = []"
    by (simp add: eval_defs)
  have keys: "nth_opt ([] :: jsstring list) 0 = None \<or> nth_opt ([] :: jsstring list) 0 = Some []"
    "nth_opt ?row 0 = Some (js ''  '') \<and> js ''  '' \<noteq> [] \<and> js ''  '' \<noteq> proto_key"
    by (simp_all add: nth_opt_def js_simps proto_key_def)
  have distinct: "js ''API'' \<noteq> js ''DB''"
    by (simp add: js_simps)
  note th = nameless_row_creates_no_record [where hm = ?hm and r = ?r and st = ?st
      and g = "sample_grid sample_rows"
      and sh = "\<lparr>title = js ''Sheet1'',
                 sheet_data = Some [\<lparr>rowData = Some (sample_header # sample_rows)\<rparr>]\<rparr>"
      and d = "\<lparr>rowData = Some (sample_header # sample_rows)\<rparr>" and ds = "[]"
      and ?r0.0 = sample_header and rows = sample_rows and hcells = ?hcells
      and res = "[(js ''Sheet1'', ?out)]" and out = ?out and k = "js ''DB''" and e = ?db
      and row = "[]" and row' = ?row and s = "js ''  ''" and headers = ?headers
      and fd = "\<lparr>fown = [], fproto = None\<rparr>"]
  have a: "map fst (own (data (row_step ?hm ?st ?r))) = map fst (own (data ?st))"
    using th [THEN conjunct1, THEN mp, OF blank] by blast
  have origin: "find (\<lambda>s. title s = SHEET_NAME) (sheets (sample_grid sample_rows))
        = Some \<lparr>title = js ''Sheet1'',
                 sheet_data = Some [\<lparr>rowData = Some (sample_header # sample_rows)\<rparr>]\<rparr>
      \<and> sheet_data \<lparr>title = js ''Sheet1'',
                 sheet_data = Some [\<lparr>rowData = Some (sample_header # sample_rows)\<rparr>]\<rparr>
        = Some [\<lparr>rowData = Some (sample_header # sample_rows)\<rparr>]
      \<and> rowData \<lparr>rowData = Some (sample_header # sample_rows)\<rparr>
        = Some (sample_header # sample_rows)
      \<and> row_values sample_header = Some ?hcells
      \<and> parseSheetData (sample_grid sample_rows) = Inr [(js ''Sheet1'', ?out)]
      \<and> map_of [(js ''Sheet1'', ?out)] SHEET_NAME = Some ?out
      \<and> map_of (own ?out) (js ''DB'') = Some ?db"
    using sample_grid_found [of sample_rows] sample_rows_parsed distinct
    by (simp add: sample_header_def SHEET_NAME_def)
  have b: "js ''DB'' \<noteq> []
      \<and> (\<exists>r' \<in> set sample_rows.
            js ''DB'' = trim (cvalue (getCellData ?hm (row_cells r') (js ''Service''))))"
    by (rule th [THEN conjunct2, THEN conjunct1, THEN mp, OF origin])
  have c: "flat_step ?headers \<lparr>fown = [], fproto = None\<rparr> [] = \<lparr>fown = [], fproto = None\<rparr>"
    by (rule th [THEN conjunct2, THEN conjunct2, THEN conjunct1, THEN mp]) (rule keys(1))
  have d: "map_of (fown (flat_step ?headers \<lparr>fown = [], fproto = None\<rparr> ?row)) (js ''  '')
      = Some (flat_record ?headers ?row)"
    by (rule th [THEN conjunct2, THEN conjunct2, THEN conjunct2, THEN mp]) (rule keys(2))
  show ?thesis
    using a b c d by blast
qed

text \<open>
  C3 as first stated fails in the flat variant: a name of two spaces is empty after
  trimming, and the row still creates a record under that name.
\<close>

theorem flat_blank_name_counterexample:
  "trim (js ''  '') = []
   \<and> parseSheetData_flat (sample_values [[''  '', ''-'', ''-'', ''-'', ''-'']])
     = Inr [(js ''Sheet1'',
         \<lparr>fown =
            [(js ''  '', [(js ''Compliant'', JNull), (js ''Total'', JNull),
                         (js ''Mising'', JNull), (js ''%Compliant'', JNull)])],
          fproto = None\<rparr>)]"
  by (simp add: flat_eval_defs trim_def is_ws_def)


section \<open>Colour classification: C4\<close>

text \<open>
  C4. \<open>rgbToColorName\<close> is a function of the three channels, each read as 0 when absent.
  It answers Red exactly when red > 0.8, green < 0.2 and blue < 0.2; otherwise Green
  exactly when green > 0.5 and red < 0.5; otherwise Gray, and Gray when there is no colour
  object. The six sample colours of the specification are classified as it lists them.
\<close>

theorem rgbToColorName_classifies:
  "rgbToColorName None = js ''Gray''
   \<and> (rgbToColorName (Some c) = js ''Red''
        \<longleftrightarrow> channel (red c) > 0.8 \<and> channel (green c) < 0.2 \<and> channel (blue c) < 0.2)
   \<and> (rgbToColorName (Some c) = js ''Green''
        \<longleftrightarrow> \<not> (channel (red c) > 0.8 \<and> channel (green c) < 0.2 \<and> channel (blue c) < 0.2)
            \<and> channel (green c) > 0.5 \<and> channel (red c) < 0.5)
   \<and> (rgbToColorName (Some c) = js ''Gray''
        \<longleftrightarrow> \<not> (channel (red c) > 0.8 \<and> channel (green c) < 0.2 \<and> channel (blue c) < 0.2)
            \<and> \<not> (channel (green c) > 0.5 \<and> channel (red c) < 0.5))
   \<and> channel None = 0 \<and> channel (Some v) = v
   \<and> rgbToColorName (Some \<lparr>red = Some 1, green = Some 0, blue = Some 0\<rparr>) = js ''Red''
   \<and> rgbToColorName (Some \<lparr>red = Some 0, green = Some 1, blue = Some 0\<rparr>) = js ''Green''
   \<and> rgbToColorName (Some \<lparr>red = Some 0, green = Some 0, blue = Some 0\<rparr>) = js ''Gray''
   \<and> rgbToColorName (Some \<lparr>red = Some 0.9, green = Some 0.1, blue = Some 0.1\<rparr>) = js ''Red''
   \<and> rgbToColorName (Some \<lparr>red = Some 0.3, green = Some 0.6, blue = Some 0.3\<rparr>) = js ''Green''
   \<and> rgbToColorName (Some \<lparr>red = Some 1, green = Some 1, blue = Some 1\<rparr>) = js ''Gray''
   \<and> rgbToColorName (Some \<lparr>red = Some 1, green = None, blue = None\<rparr>) = js ''Red''
   \<and> rgbToColorName (Some \<lparr>red = None, green = Some 1, blue = None\<rparr>) = js ''Green''
   \<and> rgbToColorName (Some \<lparr>red = None, green = None, blue = None\<rparr>) = js ''Gray''"
  by (simp add: rgbToColorName_def channel_def Let_def js_lits)

section \<open>The cache within and beyond its lifetime: C5\<close>

text \<open>
  C5. The lifetime is 30 seconds, 30000 in the milliseconds of \<open>Date.now()\<close>. When a call
  at \<open>now1\<close> went upstream and succeeded with \<open>v\<close>, a following call at \<open>now2\<close> with
  \<open>now2 - now1\<close> below the lifetime makes no upstream request, returns the same \<open>v\<close> and
  leaves the cache slot as it was, so the two calls together made one upstream request.
  A call whose age since the stored timestamp is not below the lifetime makes an upstream
  request, whatever the cache holds. Both variants behave so.
\<close>

theorem fetchSheetData_ttl:
  "CACHE_DURATION = 30000
   \<and> (upstream_calls (fetchSheetData now1 up1 st) = 1
        \<and> returned (fetchSheetData now1 up1 st) = Inr v \<and> now2 - now1 < CACHE_DURATION
      \<longrightarrow> fetchSheetData now2 up2 (state_after (fetchSheetData now1 up1 st))
            = \<lparr>returned = Inr v, state_after = state_after (fetchSheetData now1 up1 st),
               upstream_calls = 0\<rparr>
          \<and> upstream_calls (fetchSheetData now1 up1 st)
              + upstream_calls (fetchSheetData now2 up2 (state_after (fetchSheetData now1 up1 st)))
            \<le> 1)
   \<and> (\<not> now - cacheTimestamp st' < CACHE_DURATION
      \<longrightarrow> upstream_calls (fetchSheetData now up st') = 1)
   \<and> (upstream_calls (fetchSheetData_flat now1 fup1 fs) = 1
        \<and> returned (fetchSheetData_flat now1 fup1 fs) = Inr fv \<and> now2 - now1 < CACHE_DURATION
      \<longrightarrow> fetchSheetData_flat now2 fup2 (state_after (fetchSheetData_flat now1 fup1 fs))
            = \<lparr>returned = Inr fv, state_after = state_after (fetchSheetData_flat now1 fup1 fs),
               upstream_calls = 0\<rparr>
          \<and> upstream_calls (fetchSheetData_flat now1 fup1 fs)
              + upstream_calls
                  (fetchSheetData_flat now2 fup2 (state_after (fetchSheetData_flat now1 fup1 fs)))
            \<le> 1)
   \<and> (\<not> now - cacheTimestamp fs' < CACHE_DURATION
      \<longrightarrow> upstream_calls (fetchSheetData_flat now fup fs') = 1)"
proof -
  have ttl: "CACHE_DURATION = 30000"
    by (simp add: CACHE_DURATION_def)
  have grid: "fetchSheetData now2 up2 (state_after (fetchSheetData now1 up1 st))
        = \<lparr>returned = Inr v, state_after = state_after (fetchSheetData now1 up1 st),
           upstream_calls = 0\<rparr>"
    if "upstream_calls (fetchSheetData now1 up1 st) = 1"
      and "returned (fetchSheetData now1 up1 st) = Inr v" and "now2 - now1 < CACHE_DURATION"
    using that unfolding fetchSheetData_def by (rule fetch_cached_twice)
  have flat: "fetchSheetData_flat now2 fup2 (state_after (fetchSheetData_flat now1 fup1 fs))
        = \<lparr>returned = Inr fv, state_after = state_after (fetchSheetData_flat now1 fup1 fs),
           upstream_calls = 0\<rparr>"
    if "upstream_calls (fetchSheetData_flat now1 fup1 fs) = 1"
      and "returned (fetchSheetData_flat now1 fup1 fs) = Inr fv" and "now2 - now1 < CACHE_DURATION"
    using that unfolding fetchSheetData_flat_def by (rule fetch_cached_twice)
  have stale: "upstream_calls (fetchSheetData now up st') = 1"
    if "\<not> now - cacheTimestamp st' < CACHE_DURATION"
    using that unfolding fetchSheetData_def by (rule fetch_cached_stale)
  have stale_flat: "upstream_calls (fetchSheetData_flat now fup fs') = 1"
    if "\<not> now - cacheTimestamp fs' < CACHE_DURATION"
    using that unfolding fetchSheetData_flat_def by (rule fetch_cached_stale)
  show ?thesis
    using ttl grid flat stale stale_flat by simp
qed

theorem fetchSheetData_ttl_witness:
  "upstream_calls (fetchSheetData 1000500 (Inr \<lparr>sheets = []\<rparr>) initial_cache) = 1
   \<and> returned (fetchSheetData 1000500 (Inr \<lparr>sheets = []\<rparr>) initial_cache) = Inr empty_output
   \<and> (1030499 :: int) - 1000500 < CACHE_DURATION
   \<and> fetchSheetData 1030499 (Inl (AxiosError (js ''Network Error'')))
        (state_after (fetchSheetData 1000500 (Inr \<lparr>sheets = []\<rparr>) initial_cache))
      = \<lparr>returned = Inr empty_output,
         state_after = \<lparr>cache = Some empty_output, cacheTimestamp = 1000500\<rparr>,
         upstream_calls = 0\<rparr>
   \<and> upstream_calls (fetchSheetData 1030500 (Inr \<lparr>sheets = []\<rparr>)
        \<lparr>cache = Some empty_output, cacheTimestamp = 1000500\<rparr>) = 1
   \<and> upstream_calls (fetchSheetData_flat 1000500 (Inr (Some [])) initial_cache) = 1
   \<and> fetchSheetData_flat 1030499 (Inl (AxiosError (js ''Network Error'')))
        (state_after (fetchSheetData_flat 1000500 (Inr (Some [])) initial_cache))
      = \<lparr>returned = Inr [(SHEET_NAME, \<lparr>fown = [], fproto = None\<rparr>)],
         state_after = \<lparr>cache = Some [(SHEET_NAME, \<lparr>fown = [], fproto = None\<rparr>)],
                         cacheTimestamp = 1000500\<rparr>,
         upstream_calls = 0\<rparr>
   \<and> upstream_calls (fetchSheetData_flat 1030500 (Inr (Some []))
        \<lparr>cache = Some [(SHEET_NAME, \<lparr>fown = [], fproto = None\<rparr>)], cacheTimestamp = 1000500\<rparr>) = 1"
proof -
  have g1: "fetchSheetData 1000500 (Inr \<lparr>sheets = []\<rparr>) initial_cache
      = \<lparr>returned = Inr empty_output,
         state_after = \<lparr>cache = Some empty_output, cacheTimestamp = 1000500\<rparr>,
         upstream_calls = 1\<rparr>"
    by (simp add: fetchSheetData_def fetch_cached_def initial_cache_def parseSheetData_def)
  have f1: "fetchSheetData_flat 1000500 (Inr (Some [])) initial_cache
      = \<lparr>returned = Inr [(SHEET_NAME, \<lparr>fown = [], fproto = None\<rparr>)],
         state_after = \<lparr>cache = Some [(SHEET_NAME, \<lparr>fown = [], fproto = None\<rparr>)],
                         cacheTimestamp = 1000500\<rparr>,
         upstream_calls = 1\<rparr>"
    by (simp add: fetchSheetData_flat_def fetch_cached_def initial_cache_def
        parseSheetData_flat_def)
  have d: "(1030499 :: int) - 1000500 < CACHE_DURATION"
    "\<not> (1030500 :: int) - 1000500 < CACHE_DURATION"
    by (simp_all add: CACHE_DURATION_def)
  show ?thesis
    using fetchSheetData_ttl [where ?now1.0 = 1000500 and ?now2.0 = 1030499
        and ?up1.0 = "Inr \<lparr>sheets = []\<rparr>" and st = initial_cache and v = empty_output
        and ?up2.0 = "Inl (AxiosError (js ''Network Error''))"
        and now = 1030500 and up = "Inr \<lparr>sheets = []\<rparr>"
        and st' = "\<lparr>cache = Some empty_output, cacheTimestamp = 1000500\<rparr>"
        and ?fup1.0 = "Inr (Some [])" and fs = initial_cache
        and fv = "[(SHEET_NAME, \<lparr>fown = [], fproto = None\<rparr>)]"
        and ?fup2.0 = "Inl (AxiosError (js ''Network Error''))"
        and fup = "Inr (Some [])"
        and fs' = "\<lparr>cache = Some [(SHEET_NAME, \<lparr>fown = [], fproto = None\<rparr>)],
                     cacheTimestamp = 1000500\<rparr>"]
    by (simp add: g1 f1 d)
qed


section \<open>A failed fetch: C6\<close>

text \<open>
  C6, as the code has it. When the cache does not answer and the upstream request is
  rejected, or its response makes the parser throw, the handler answers 500 with \<open>details\<close>
  set to the message of the error, whatever that message is, and the cache slot stays as it
  was. The message of a parser error is never empty, so \<open>details\<close> is not empty then; for a
  rejection \<open>details\<close> is the message the HTTP client gave, which the code copies without
  looking at it. Every call either returns a result and, when it went upstream, stores
  exactly that result with the time of the call, or returns an error and leaves the slot
  untouched.
\<close>

theorem failed_fetch_leaves_cache:
  "((cache st = None \<or> \<not> now - cacheTimestamp st < CACHE_DURATION)
      \<and> (upstream = Inl err \<or> (upstream = Inr resp \<and> parseSheetData resp = Inl err))
     \<longrightarrow> handler now upstream st
           = (Json500 (js ''Failed to fetch sheet data'') (message err), st))
   \<and> (parseSheetData resp' = Inl perr \<longrightarrow> message perr \<noteq> [])
   \<and> ((cache fs = None \<or> \<not> now - cacheTimestamp fs < CACHE_DURATION)
      \<and> (fupstream = Inl err \<or> (fupstream = Inr fresp \<and> parseSheetData_flat fresp = Inl err))
     \<longrightarrow> handler_flat now fupstream fs
           = (Json500 (js ''Failed to fetch sheet data'') (message err), fs))
   \<and> (parseSheetData_flat fresp' = Inl ferr \<longrightarrow> message ferr \<noteq> [])
   \<and> (case returned (fetchSheetData now upstream st) of
        Inl e \<Rightarrow> state_after (fetchSheetData now upstream st) = st
      | Inr v \<Rightarrow>
          (if upstream_calls (fetchSheetData now upstream st) = 0
           then state_after (fetchSheetData now upstream st) = st \<and> cache st = Some v
           else state_after (fetchSheetData now upstream st)
                = \<lparr>cache = Some v, cacheTimestamp = now\<rparr>))
   \<and> (case returned (fetchSheetData_flat now fupstream fs) of
        Inl e \<Rightarrow> state_after (fetchSheetData_flat now fupstream fs) = fs
      | Inr v \<Rightarrow>
          (if upstream_calls (fetchSheetData_flat now fupstream fs) = 0
           then state_after (fetchSheetData_flat now fupstream fs) = fs \<and> cache fs = Some v
           else state_after (fetchSheetData_flat now fupstream fs)
                = \<lparr>cache = Some v, cacheTimestamp = now\<rparr>))"
proof -
  have grid: "handler now upstream st
        = (Json500 (js ''Failed to fetch sheet data'') (message err), st)"
    if miss: "cache st = None \<or> \<not> now - cacheTimestamp st < CACHE_DURATION"
      and fail: "upstream = Inl err \<or> (upstream = Inr resp \<and> parseSheetData resp = Inl err)"
    using fail unfolding handler_def fetchSheetData_def by (rule fetch_cached_failure [OF miss])
  have flat: "handler_flat now fupstream fs
        = (Json500 (js ''Failed to fetch sheet data'') (message err), fs)"
    if miss: "cache fs = None \<or> \<not> now - cacheTimestamp fs < CACHE_DURATION"
      and fail: "fupstream = Inl err
          \<or> (fupstream = Inr fresp \<and> parseSheetData_flat fresp = Inl err)"
    using fail unfolding handler_flat_def fetchSheetData_flat_def
    by (rule fetch_cached_failure [OF miss])
  have gmsg: "message perr \<noteq> []" if "parseSheetData resp' = Inl perr"
    using that by (rule parseSheetData_error_message)
  have fmsg: "message ferr \<noteq> []" if "parseSheetData_flat fresp' = Inl ferr"
    using that by (rule parseSheetData_flat_error_message)
  show ?thesis
    using grid flat gmsg fmsg
      fetch_cached_all_or_nothing [of parseSheetData now upstream st]
      fetch_cached_all_or_nothing [of parseSheetData_flat now fupstream fs]
    unfolding fetchSheetData_def fetchSheetData_flat_def by blast
qed

theorem failed_fetch_leaves_cache_witness:
  "handler 50000 (Inl (AxiosError (js ''Network Error'')))
      \<lparr>cache = Some empty_output, cacheTimestamp = 1000\<rparr>
     = (Json500 (js ''Failed to fetch sheet data'') (js ''Network Error''),
        \<lparr>cache = Some empty_output, cacheTimestamp = 1000\<rparr>)
   \<and> parseSheetData \<lparr>sheets = [\<lparr>title = js ''Sheet1'', sheet_data = Some []\<rparr>]\<rparr>
     = Inl (TypeError (js ''Cannot read properties of undefined (reading 'rowData')''))
   \<and> message (TypeError (js ''Cannot read properties of undefined (reading 'rowData')'')) \<noteq> []
   \<and> handler_flat 50000 (Inr None) initial_cache
     = (Json500 (js ''Failed to fetch sheet data'')
          (js ''Cannot read properties of undefined (reading '0')''), initial_cache)
   \<and> parseSheetData_flat None
     = Inl (TypeError (js ''Cannot read properties of undefined (reading '0')''))
   \<and> message (TypeError (js ''Cannot read properties of undefined (reading '0')'')) \<noteq> []"
proof -
  let ?st = "\<lparr>cache = Some empty_output, cacheTimestamp = 1000\<rparr>"
  let ?bad = "\<lparr>sheets = [\<lparr>title = js ''Sheet1'', sheet_data = Some []\<rparr>]\<rparr>"
  let ?gerr = "TypeError (js ''Cannot read properties of undefined (reading 'rowData')'')"
  let ?ferr = "TypeError (js ''Cannot read properties of undefined (reading '0')'')"
  have stale: "cache ?st = None \<or> \<not> (50000 :: int) - cacheTimestamp ?st < CACHE_DURATION"
    by (simp add: CACHE_DURATION_def)
  have empty: "cache (initial_cache :: flat_output cache_state) = None
      \<or> \<not> (50000 :: int) - cacheTimestamp (initial_cache :: flat_output cache_state)
            < CACHE_DURATION"
    by (simp add: initial_cache_def)
  have gparse: "parseSheetData ?bad = Inl ?gerr"
    by (simp add: parseSheetData_def SHEET_NAME_def)
  have fparse: "parseSheetData_flat None = Inl ?ferr"
    by (simp add: parseSheetData_flat_def)
  note th = failed_fetch_leaves_cache [where now = 50000
      and upstream = "Inl (AxiosError (js ''Network Error''))" and st = ?st
      and err = "AxiosError (js ''Network Error'')" and resp = ?bad
      and resp' = ?bad and perr = ?gerr
      and fupstream = "Inl (AxiosError (js ''Network Error''))" and fresp = None
      and fs = initial_cache and fresp' = None and ferr = ?ferr]
  note th' = failed_fetch_leaves_cache [where now = 50000
      and upstream = "Inl (AxiosError (js ''Network Error''))" and st = ?st
      and err = ?ferr and resp = ?bad and resp' = ?bad and perr = ?gerr
      and fupstream = "Inr None" and fresp = None
      and fs = initial_cache and fresp' = None and ferr = ?ferr]
  have a: "handler 50000 (Inl (AxiosError (js ''Network Error''))) ?st
      = (Json500 (js ''Failed to fetch sheet data'') (message (AxiosError (js ''Network Error''))),
         ?st)"
  proof (rule th [THEN conjunct1, THEN mp])
    show "(cache ?st = None \<or> \<not> (50000 :: int) - cacheTimestamp ?st < CACHE_DURATION)
        \<and> (Inl (AxiosError (js ''Network Error'')) = Inl (AxiosError (js ''Network Error''))
            \<or> ((Inl (AxiosError (js ''Network Error'')) :: js_error + spreadsheet) = Inr ?bad
                \<and> parseSheetData ?bad = Inl (AxiosError (js ''Network Error''))))"
      using stale by blast
  qed
  have b: "message ?gerr \<noteq> []"
    by (rule th [THEN conjunct2, THEN conjunct1, THEN mp]) (rule gparse)
  have c: "handler_flat 50000 (Inr None) initial_cache
      = (Json500 (js ''Failed to fetch sheet data'') (message ?ferr), initial_cache)"
  proof (rule th' [THEN conjunct2, THEN conjunct2, THEN conjunct1, THEN mp])
    show "(cache (initial_cache :: flat_output cache_state) = None
          \<or> \<not> (50000 :: int) - cacheTimestamp (initial_cache :: flat_output cache_state)
                < CACHE_DURATION)
        \<and> ((Inr None :: js_error + jsstring list list option) = Inl ?ferr
            \<or> ((Inr None :: js_error + jsstring list list option) = Inr None
                \<and> parseSheetData_flat None = Inl ?ferr))"
      using empty fparse by blast
  qed
  have d: "message ?ferr \<noteq> []"
    by (rule th [THEN conjunct2, THEN conjunct2, THEN conjunct2, THEN conjunct1, THEN mp])
      (rule fparse)
  show ?thesis
    using a b c d gparse fparse by simp
qed

text \<open>
  C6 as first stated fails where it promises a non-empty \<open>details\<close> for every failure: the
  handler copies the message of a rejection as it is, so a rejection that carries an empty
  message is answered with empty \<open>details\<close>.
\<close>

theorem failed_fetch_empty_details_counterexample:
  "handler 50000 (Inl (AxiosError [])) \<lparr>cache = None, cacheTimestamp = 0\<rparr>
   = (Json500 (js ''Failed to fetch sheet data'') [], \<lparr>cache = None, cacheTimestamp = 0\<rparr>)"
  by (simp add: handler_def fetchSheetData_def fetch_cached_def respond_def)


section \<open>Zero or a non-empty mapping: C7\<close>

text \<open>
  C7. The \<open>Subheading\<close> of a record must be the number 0 exactly when no subheading row
  was attached to it. The parser attaches a row with \<open>Subheading[name] = {colour}\<close> on a
  plain object. For the name \<open>__proto__\<close> this assignment replaces the prototype of the
  object and adds no property, so the cleanup counts no keys and writes 0 although a
  subheading row was attached to the record. With any other name in the same place, such as
  \<open>Latency\<close>, the record keeps a mapping with that entry.
\<close>

theorem proto_subheading_gives_zero:
  "parseSheetData (sample_grid
      [\<lparr>row_values = Some (map text_cell [''API'', [], ''42'', ''100'', ''5'', ''95%''])\<rparr>,
       \<lparr>row_values = Some (map text_cell [[], ''__proto__''])\<rparr>])
   = Inr [(js ''Sheet1'',
       \<lparr>own = [(js ''API'',
          \<lparr>Subheading = SubNum 0, Compliant = Some (Fin 42), Total = js ''100'',
           Mising = js ''5'', pctCompliant = js ''95%'', status_C = None, status_E = None\<rparr>)],
        proto = None\<rparr>)]
   \<and> trim (cvalue (getCellData
         (build_headerMap (map formattedValue (map text_cell
            [''Service'', ''Subheading'', ''Compliant'', ''Total'', ''Mising'', ''% Compliant'']))
            0 Map.empty)
         (row_cells \<lparr>row_values = Some (map text_cell [[], ''__proto__''])\<rparr>)
         (js ''Subheading''))) = js ''__proto__''
   \<and> currentServiceKey (row_step
         (build_headerMap (map formattedValue (map text_cell
            [''Service'', ''Subheading'', ''Compliant'', ''Total'', ''Mising'', ''% Compliant'']))
            0 Map.empty)
         initial_state
         \<lparr>row_values = Some (map text_cell [''API'', [], ''42'', ''100'', ''5'', ''95%''])\<rparr>)
     = Some (js ''API'')
   \<and> parseSheetData (sample_grid
      [\<lparr>row_values = Some (map text_cell [''API'', [], ''42'', ''100'', ''5'', ''95%''])\<rparr>,
       \<lparr>row_values = Some (map text_cell [[], ''Latency''])\<rparr>])
   = Inr [(js ''Sheet1'',
       \<lparr>own = [(js ''API'',
          \<lparr>Subheading = SubObj [(js ''Latency'', js ''Gray'')] None, Compliant = Some (Fin 42),
           Total = js ''100'', Mising = js ''5'', pctCompliant = js ''95%'',
           status_C = None, status_E = None\<rparr>)],
        proto = None\<rparr>)]"
  by (simp add: eval_defs Number_42)


section \<open>Subheading rows with no open record: C8\<close>

text \<open>
  C8. Rows whose name cell is empty after trimming and that stand before the first named
  row leave the loop in its initial state, whatever their subheading cell and other cells
  hold: the parser returns exactly what it returns for the grid without these rows, so
  they add no record and no subheading entry to the result.
\<close>

theorem leading_nameless_rows_dropped:
  assumes "find (\<lambda>s. title s = SHEET_NAME) (sheets g) = Some sh"
    and "sheet_data sh = Some (d # ds)" and "rowData d = Some (r0 # pre @ rest)"
    and "find (\<lambda>s. title s = SHEET_NAME) (sheets g') = Some sh'"
    and "sheet_data sh' = Some (d' # ds')" and "rowData d' = Some (r0 # rest)"
    and "row_values r0 = Some hcells"
    and "\<forall>r \<in> set pre.
           trim (cvalue (getCellData (build_headerMap (map formattedValue hcells) 0 Map.empty)
             (row_cells r) (js ''Service''))) = []"
  shows "parseSheetData g = parseSheetData g'
         \<and> process_rows (build_headerMap (map formattedValue hcells) 0 Map.empty) pre initial_state
             = initial_state"
proof -
  let ?hm = "build_headerMap (map formattedValue hcells) 0 Map.empty"
  have cur: "currentServiceKey initial_state = None"
    by (simp add: initial_state_def)
  have "process_rows ?hm (pre @ rest) initial_state = process_rows ?hm rest initial_state"
    using assms(8) cur by (rule process_rows_nameless_prefix)
  then have "parse_rows (r0 # pre @ rest) = parse_rows (r0 # rest)"
    by (simp add: parse_rows_header [OF assms(7)])
  then have "parseSheetData g = parseSheetData g'"
    by (simp add: parseSheetData_rows [OF assms(1-3)] parseSheetData_rows [OF assms(4-6)])
  moreover have "process_rows ?hm pre initial_state = initial_state"
    using process_rows_nameless_prefix [OF assms(8) cur, of "[]"] by simp
  ultimately show ?thesis by simp
qed

theorem leading_nameless_rows_dropped_witness:
  "parseSheetData (sample_grid
      [\<lparr>row_values = Some (map text_cell [''  '', ''Latency'', ''7'', ''x''])\<rparr>,
       \<lparr>row_values = None\<rparr>,
       \<lparr>row_values = Some (map text_cell [''API'', [], ''42'', ''100'', ''5'', ''95%''])\<rparr>])
   = parseSheetData (sample_grid
      [\<lparr>row_values = Some (map text_cell [''API'', [], ''42'', ''100'', ''5'', ''95%''])\<rparr>])
   \<and> parseSheetData (sample_grid
      [\<lparr>row_values = Some (map text_cell [''API'', [], ''42'', ''100'', ''5'', ''95%''])\<rparr>])
     = Inr [(js ''Sheet1'',
         \<lparr>own = [(js ''API'',
            \<lparr>Subheading = SubNum 0, Compliant = Some (Fin 42), Total = js ''100'',
             Mising = js ''5'', pctCompliant = js ''95%'', status_C = None, status_E = None\<rparr>)],
          proto = None\<rparr>)]"
proof -
  let ?pre = "[\<lparr>row_values = Some (map text_cell [''  '', ''Latency'', ''7'', ''x''])\<rparr>,
       \<lparr>row_values = None\<rparr>]"
  let ?rest = "[\<lparr>row_values = Some (map text_cell [''API'', [], ''42'', ''100'', ''5'', ''95%''])\<rparr>]"
  let ?hcells = "map text_cell
     [''Service'', ''Subheading'', ''Compliant'', ''Total'', ''Mising'', ''% Compliant'']"
  have nameless: "\<forall>r \<in> set ?pre.
      trim (cvalue (getCellData (build_headerMap (map formattedValue ?hcells) 0 Map.empty)
        (row_cells r) (js ''Service''))) = []"
    by (simp add: eval_defs)
  have found: "find (\<lambda>s. title s = SHEET_NAME) (sheets (sample_grid rows))
      = Some \<lparr>title = js ''Sheet1'', sheet_data = Some [\<lparr>rowData = Some (sample_header # rows)\<rparr>]\<rparr>"
    for rows
    by (simp add: sample_grid_def SHEET_NAME_def)
  have n42: "Number [52, 50] = Fin 42"
    by (simp add: Number_def js_simps trim_def is_ws_def parse_unsigned_decimal_def
        is_digit_def parse_exponent_def digits_val_def digit_val_def number_value_def pow10_def)
  have run: "parseSheetData (sample_grid ?rest)
     = Inr [(js ''Sheet1'',
         \<lparr>own = [(js ''API'',
            \<lparr>Subheading = SubNum 0, Compliant = Some (Fin 42), Total = js ''100'',
             Mising = js ''5'', pctCompliant = js ''95%'', status_C = None, status_E = None\<rparr>)],
          proto = None\<rparr>)]"
    by (simp add: eval_defs n42)
  have "parseSheetData (sample_grid (?pre @ ?rest)) = parseSheetData (sample_grid ?rest)"
    using leading_nameless_rows_dropped [where g = "sample_grid (?pre @ ?rest)"
        and g' = "sample_grid ?rest" and ?r0.0 = sample_header and pre = ?pre and rest = ?rest
        and hcells = ?hcells and ds = "[]" and ds' = "[]"
        and sh = "\<lparr>title = js ''Sheet1'',
                   sheet_data = Some [\<lparr>rowData = Some (sample_header # ?pre @ ?rest)\<rparr>]\<rparr>"
        and sh' = "\<lparr>title = js ''Sheet1'',
                    sheet_data = Some [\<lparr>rowData = Some (sample_header # ?rest)\<rparr>]\<rparr>"
        and d = "\<lparr>rowData = Some (sample_header # ?pre @ ?rest)\<rparr>"
        and d' = "\<lparr>rowData = Some (sample_header # ?rest)\<rparr>"]
      found [of "?pre @ ?rest"] found [of ?rest] nameless
    by (simp add: sample_header_def)
  then show ?thesis
    using run by simp
qed


section \<open>Malformed input: C9\<close>

text \<open>
  C9. A malformed input must give the empty mapping under the sheet name and no error. The
  flat variant reads \<open>rows[0]\<close> without a guard: when the response carries no \<open>values\<close>,
  as it does for an empty sheet, the parser throws and the handler answers 500. The grid
  variant returns the empty mapping when no sheet has the name, when the sheet has no
  \<open>data\<close> and when its first block has no \<open>rowData\<close> (\<open>parseSheetData_malformed\<close>); it
  throws as well when \<open>data\<close> or \<open>rowData\<close> is an empty array or the header row has no
  \<open>values\<close> (\<open>parseSheetData_empty_arrays_throw\<close>).
\<close>

theorem flat_absent_rows_throw:
  "parseSheetData_flat None
     = Inl (TypeError (js ''Cannot read properties of undefined (reading '0')''))
   \<and> handler_flat 0 (Inr None) initial_cache
     = (Json500 (js ''Failed to fetch sheet data'')
          (js ''Cannot read properties of undefined (reading '0')''), initial_cache)
   \<and> parseSheetData_flat (Some []) = Inr [(SHEET_NAME, \<lparr>fown = [], fproto = None\<rparr>)]
   \<and> parseSheetData \<lparr>sheets = []\<rparr> = Inr [(SHEET_NAME, \<lparr>own = [], proto = None\<rparr>)]"
  by (simp add: parseSheetData_flat_def handler_flat_def fetchSheetData_flat_def
      fetch_cached_def respond_def initial_cache_def parseSheetData_def empty_output_def)


section \<open>The compliant field of the grid variant: C10\<close>

text \<open>
  C10. In the grid variant the \<open>Compliant\<close> field of every record of the output is \<open>null\<close>
  or a number that is neither NaN nor a zero. The field is \<open>Number(v) || null\<close> of the
  compliant cell's text \<open>v\<close>, so a text that converts to zero, such as \<open>0\<close> or the empty
  string, gives \<open>null\<close>.
\<close>

theorem grid_compliant_null_or_nonzero:
  "(parseSheetData g = Inr res \<and> map_of res SHEET_NAME = Some out
      \<and> map_of (own out) k = Some e
     \<longrightarrow> Compliant e = None
         \<or> (\<exists>n. Compliant e = Some n \<and> n \<noteq> NaN \<and> n \<noteq> Fin 0 \<and> n \<noteq> NegZero))
   \<and> Compliant (new_entity hm cells)
       = number_or_null (cvalue (getCellData hm cells (js ''Compliant'')))
   \<and> (Number v = Fin 0 \<or> Number v = NegZero \<longrightarrow> number_or_null v = None)
   \<and> (number_or_null v = Some n \<longrightarrow> n = Number v \<and> n \<noteq> NaN \<and> n \<noteq> Fin 0 \<and> n \<noteq> NegZero)
   \<and> Number (js ''0'') = Fin 0 \<and> number_or_null (js ''0'') = None
   \<and> Number [] = Fin 0 \<and> number_or_null [] = None"
proof -
  have out: "Compliant e = None
      \<or> (\<exists>n. Compliant e = Some n \<and> n \<noteq> NaN \<and> n \<noteq> Fin 0 \<and> n \<noteq> NegZero)"
    if "parseSheetData g = Inr res" "map_of res SHEET_NAME = Some out"
      "map_of (own out) k = Some e"
    using output_compliant_ok [OF that]
    by (cases "Compliant e") (simp_all add: compliant_ok_def truthy_num_def)
  have new: "Compliant (new_entity hm cells)
      = number_or_null (cvalue (getCellData hm cells (js ''Compliant'')))"
    by (simp add: new_entity_def)
  have zero: "number_or_null v = None" if "Number v = Fin 0 \<or> Number v = NegZero"
    using that by (auto intro: number_or_null_falsy)
  have lits: "number_or_null (js ''0'') = None" "number_or_null [] = None"
    by (simp_all add: number_or_null_falsy Number_literals)
  show ?thesis
    using out new zero lits number_or_null_truthy [of v n] Number_literals(1,2) by blast
qed


theorem grid_compliant_null_or_nonzero_witness:
  "parseSheetData (sample_grid
       [\<lparr>row_values = Some (map text_cell [''API'', [], ''0'', ''100'', ''5'', ''95%''])\<rparr>])
     = Inr [(js ''Sheet1'',
         \<lparr>own = [(js ''API'',
            \<lparr>Subheading = SubNum 0, Compliant = None, Total = js ''100'', Mising = js ''5'',
             pctCompliant = js ''95%'', status_C = None, status_E = None\<rparr>)],
          proto = None\<rparr>)]
   \<and> Number (js ''0'') = Fin 0
   \<and> number_or_null (js ''0'') = None
   \<and> number_or_null (js ''42'') = Some (Fin 42)
   \<and> Fin 42 = Number (js ''42'')"
proof -
  have run: "parseSheetData (sample_grid
       [\<lparr>row_values = Some (map text_cell [''API'', [], ''0'', ''100'', ''5'', ''95%''])\<rparr>])
     = Inr [(js ''Sheet1'',
         \<lparr>own = [(js ''API'',
            \<lparr>Subheading = SubNum 0, Compliant = None, Total = js ''100'', Mising = js ''5'',
             pctCompliant = js ''95%'', status_C = None, status_E = None\<rparr>)],
          proto = None\<rparr>)]"
    by (simp add: eval_defs Number_literals [unfolded js_simps, simplified])
  have n42: "Number (js ''42'') = Fin 42"
    by (simp add: Number_def js_simps trim_def is_ws_def parse_unsigned_decimal_def
        is_digit_def parse_exponent_def digits_val_def digit_val_def number_value_def pow10_def)
  then have t42: "number_or_null (js ''42'') = Some (Fin 42)"
    by (simp add: number_or_null_def truthy_num_def)
  have "number_or_null (js ''0'') = None \<and> Fin 42 = Number (js ''42'')"
    using grid_compliant_null_or_nonzero [where v = "js ''42''" and n = "Fin 42"
        and g = "sample_grid
          [\<lparr>row_values = Some (map text_cell [''API'', [], ''0'', ''100'', ''5'', ''95%''])\<rparr>]"
        and res = "[(js ''Sheet1'',
         \<lparr>own = [(js ''API'',
            \<lparr>Subheading = SubNum 0, Compliant = None, Total = js ''100'', Mising = js ''5'',
             pctCompliant = js ''95%'', status_C = None, status_E = None\<rparr>)],
          proto = None\<rparr>)]"
        and out = "\<lparr>own = [(js ''API'',
            \<lparr>Subheading = SubNum 0, Compliant = None, Total = js ''100'', Mising = js ''5'',
             pctCompliant = js ''95%'', status_C = None, status_E = None\<rparr>)],
          proto = None\<rparr>"
        and k = "js ''API''"
        and e = "\<lparr>Subheading = SubNum 0, Compliant = None, Total = js ''100'', Mising = js ''5'',
             pctCompliant = js ''95%'', status_C = None, status_E = None\<rparr>"
        and hm = Map.empty and cells = "[]"] t42
    by simp
  then show ?thesis
    using run n42 t42 Number_literals(2) by simp
qed


end
